theory Spec2Isabelle
  imports Main "HOL-Library.Word" "HOL-Library.Log_Nat"
begin

section \<open>JavaScript values as the handlers of \<^verbatim>\<open>http-demo/server.js\<close> see them\<close>

subsection \<open>Numbers\<close>

text \<open>
  A JavaScript number is an IEEE double. The handlers never calculate with a price: they
  convert it, test it (\<^verbatim>\<open>Number.isFinite\<close>, \<^verbatim>\<open>< 0\<close>), store it and send it back. A finite
  double is modelled by the rational number it denotes; the two zeros are identified, since
  no operation of the server tells them apart (\<^verbatim>\<open>-0 < 0\<close> is false, \<^verbatim>\<open>-0 === 0\<close> is true and both
  print as \<^verbatim>\<open>0\<close>).
\<close>

datatype jsnum = Fin rat | PosInf | NegInf | NaN

fun negate :: "jsnum \<Rightarrow> jsnum" where
  "negate (Fin q) = Fin (- q)"
| "negate PosInf = NegInf"
| "negate NegInf = PosInf"
| "negate NaN = NaN"

text \<open>\<^verbatim>\<open>Number.isFinite(x)\<close> and \<^verbatim>\<open>x < 0\<close> on a number; a comparison with \<^verbatim>\<open>NaN\<close> is false.\<close>

fun isFinite :: "jsnum \<Rightarrow> bool" where
  "isFinite (Fin q) = True"
| "isFinite PosInf = False"
| "isFinite NegInf = False"
| "isFinite NaN = False"

fun lessZero :: "jsnum \<Rightarrow> bool" where
  "lessZero (Fin q) = (q < 0)"
| "lessZero PosInf = False"
| "lessZero NegInf = True"
| "lessZero NaN = False"

text \<open>
  Rounding of a mathematical value to the nearest double, ties to even: 53 significant
  bits, the unit in the last place never below \<open>2\<^sup>-\<^sup>1\<^sup>0\<^sup>7\<^sup>4\<close>, overflow to infinity from
  \<open>2\<^sup>1\<^sup>0\<^sup>2\<^sup>4\<close> on. It is used where the runtime turns the text of a numeric literal into a
  number.
\<close>

definition pow2 :: "int \<Rightarrow> rat" where
  "pow2 e = (if 0 \<le> e then 2 ^ nat e else 1 / 2 ^ nat (- e))"

definition pow10 :: "int \<Rightarrow> rat" where
  "pow10 e = (if 0 \<le> e then 10 ^ nat e else 1 / 10 ^ nat (- e))"

definition roundTiesToEven :: "rat \<Rightarrow> int" where
  "roundTiesToEven x =
     (let f = \<lfloor>x\<rfloor>; d = x - of_int f
      in if d < 1 / 2 then f else if 1 / 2 < d then f + 1 else if even f then f else f + 1)"

definition floorLog2 :: "rat \<Rightarrow> int" where
  "floorLog2 q =
     (let (a, b) = quotient_of q; e = bitlen a - bitlen b
      in if pow2 e \<le> q then e else e - 1)"

definition roundPos :: "rat \<Rightarrow> jsnum" where
  "roundPos q =
     (let p = max (floorLog2 q) (- 1022) - 52;
          v = of_int (roundTiesToEven (q / pow2 p)) * pow2 p
      in if 2 ^ 1024 \<le> v then PosInf else Fin v)"

definition roundToDouble :: "rat \<Rightarrow> jsnum" where
  "roundToDouble q =
     (if q = 0 then Fin 0 else if 0 < q then roundPos q else negate (roundPos (- q)))"

subsection \<open>Strings\<close>

text \<open>
  A JavaScript string is a sequence of 16-bit code units. \<open>js\<close> writes an ASCII literal
  of the source as such a sequence.
\<close>

type_synonym jsstring = "16 word list"

definition js :: "string \<Rightarrow> jsstring" where
  "js s = map (\<lambda>c. of_nat (of_char c)) s"

text \<open>
  \<^verbatim>\<open>String.prototype.trim\<close> removes leading and trailing white space and line terminators:
  TAB, LF, VT, FF, CR, SPACE, NBSP, U+1680, U+2000 to U+200A, U+2028, U+2029, U+202F,
  U+205F, U+3000 and U+FEFF.
\<close>

definition isWhiteSpace :: "16 word \<Rightarrow> bool" where
  "isWhiteSpace c \<longleftrightarrow>
     c \<in> {0x9, 0xA, 0xB, 0xC, 0xD, 0x20, 0xA0, 0x1680, 0x2028, 0x2029, 0x202F, 0x205F,
          0x3000, 0xFEFF}
     \<or> (0x2000 \<le> c \<and> c \<le> 0x200A)"

definition trim :: "jsstring \<Rightarrow> jsstring" where
  "trim s = rev (dropWhile isWhiteSpace (rev (dropWhile isWhiteSpace s)))"

subsection \<open>\<^verbatim>\<open>Number(...)\<close> applied to a string\<close>

text \<open>
  The grammar \<^verbatim>\<open>StringNumericLiteral\<close> of ECMAScript: optional white space around either
  nothing (the value is 0), a binary, octal or hexadecimal integer (\<^verbatim>\<open>0b\<close>, \<^verbatim>\<open>0o\<close>, \<^verbatim>\<open>0x\<close>,
  no sign), or an optionally signed decimal literal: \<^verbatim>\<open>Infinity\<close>, or digits with an optional
  fraction and an optional exponent. Any other text converts to \<^verbatim>\<open>NaN\<close>.
\<close>

definition isDecimalDigit :: "16 word \<Rightarrow> bool" where
  "isDecimalDigit c \<longleftrightarrow> 0x30 \<le> c \<and> c \<le> 0x39"

definition isHexDigit :: "16 word \<Rightarrow> bool" where
  "isHexDigit c \<longleftrightarrow>
     isDecimalDigit c \<or> (0x61 \<le> c \<and> c \<le> 0x66) \<or> (0x41 \<le> c \<and> c \<le> 0x46)"

definition isOctalDigit :: "16 word \<Rightarrow> bool" where
  "isOctalDigit c \<longleftrightarrow> 0x30 \<le> c \<and> c \<le> 0x37"

definition isBinaryDigit :: "16 word \<Rightarrow> bool" where
  "isBinaryDigit c \<longleftrightarrow> c = 0x30 \<or> c = 0x31"

definition digitValue :: "16 word \<Rightarrow> nat" where
  "digitValue c =
     (if isDecimalDigit c then unat c - 48
      else if 0x61 \<le> c then unat c - 87
      else unat c - 55)"

definition digitsValue :: "nat \<Rightarrow> jsstring \<Rightarrow> nat" where
  "digitsValue radix ds = foldl (\<lambda>acc c. acc * radix + digitValue c) 0 ds"

definition allOf :: "(16 word \<Rightarrow> bool) \<Rightarrow> jsstring \<Rightarrow> bool" where
  "allOf P ds \<longleftrightarrow> ds \<noteq> [] \<and> list_all P ds"

definition signedInteger :: "jsstring \<Rightarrow> int option" where
  "signedInteger s =
     (case s of
        [] \<Rightarrow> None
      | c # t \<Rightarrow>
          if c = 0x2B then (if allOf isDecimalDigit t then Some (int (digitsValue 10 t)) else None)
          else if c = 0x2D then (if allOf isDecimalDigit t then Some (- int (digitsValue 10 t)) else None)
          else if allOf isDecimalDigit s then Some (int (digitsValue 10 s))
          else None)"

definition exponentPart :: "jsstring \<Rightarrow> int option" where
  "exponentPart s =
     (case s of
        [] \<Rightarrow> Some 0
      | c # t \<Rightarrow> if c = 0x65 \<or> c = 0x45 then signedInteger t else None)"

definition strUnsignedDecimalLiteral :: "jsstring \<Rightarrow> jsnum option" where
  "strUnsignedDecimalLiteral s =
     (if s = js ''Infinity'' then Some PosInf
      else
        let ip = takeWhile isDecimalDigit s;
            r1 = dropWhile isDecimalDigit s;
            (fp, r2) = (case r1 of
                          [] \<Rightarrow> ([], [])
                        | c # t \<Rightarrow>
                            if c = 0x2E
                            then (takeWhile isDecimalDigit t, dropWhile isDecimalDigit t)
                            else ([], r1))
        in if ip = [] \<and> fp = [] then None
           else (case exponentPart r2 of
                   None \<Rightarrow> None
                 | Some e \<Rightarrow>
                     Some (roundToDouble
                            (of_nat (digitsValue 10 (ip @ fp)) * pow10 (e - int (length fp))))))"

definition strDecimalLiteral :: "jsstring \<Rightarrow> jsnum option" where
  "strDecimalLiteral s =
     (case s of
        [] \<Rightarrow> None
      | c # t \<Rightarrow>
          if c = 0x2B then strUnsignedDecimalLiteral t
          else if c = 0x2D then map_option negate (strUnsignedDecimalLiteral t)
          else strUnsignedDecimalLiteral s)"

definition nonDecimalIntegerLiteral :: "jsstring \<Rightarrow> jsnum option" where
  "nonDecimalIntegerLiteral s =
     (case s of
        z # x # ds \<Rightarrow>
          if z \<noteq> 0x30 then None
          else if (x = 0x78 \<or> x = 0x58) \<and> allOf isHexDigit ds
            then Some (roundToDouble (of_nat (digitsValue 16 ds)))
          else if (x = 0x6F \<or> x = 0x4F) \<and> allOf isOctalDigit ds
            then Some (roundToDouble (of_nat (digitsValue 8 ds)))
          else if (x = 0x62 \<or> x = 0x42) \<and> allOf isBinaryDigit ds
            then Some (roundToDouble (of_nat (digitsValue 2 ds)))
          else None
      | _ \<Rightarrow> None)"

definition StringToNumber :: "jsstring \<Rightarrow> jsnum" where
  "StringToNumber s =
     (let t = trim s
      in if t = [] then Fin 0
         else (case nonDecimalIntegerLiteral t of
                 Some v \<Rightarrow> v
               | None \<Rightarrow> (case strDecimalLiteral t of Some v \<Rightarrow> v | None \<Rightarrow> NaN)))"

subsection \<open>Values of a parsed request body and \<^verbatim>\<open>Number(...)\<close> on them\<close>

text \<open>
  \<^verbatim>\<open>express.json\<close> and \<^verbatim>\<open>express.urlencoded\<close> leave in \<^verbatim>\<open>req.body\<close> an object whose
  properties are JSON values; a property that is missing reads as \<^verbatim>\<open>undefined\<close>.
\<close>

datatype jsvalue =
    JUndefined
  | JNull
  | JBool bool
  | JNum jsnum
  | JStr jsstring
  | JArr "jsvalue list"
  | JObj "(jsstring \<times> jsvalue) list"

datatype thrown = TypeError

text \<open>
  Converting an array or an object to a number goes through its string. For an object
  parsed from JSON that string is \<^verbatim>\<open>[object Object]\<close>, unless the object has an own
  property \<^verbatim>\<open>toString\<close>: that property hides \<^verbatim>\<open>Object.prototype.toString\<close>, its value
  cannot be called, and \<^verbatim>\<open>OrdinaryToPrimitive\<close> ends with a \<^verbatim>\<open>TypeError\<close>. An array joins the
  strings of its elements with commas (\<^verbatim>\<open>null\<close> and \<^verbatim>\<open>undefined\<close> give the empty string),
  so it throws when one of its elements does.
\<close>

fun toPrimitiveThrows :: "jsvalue \<Rightarrow> bool" where
  "toPrimitiveThrows (JArr xs) = list_ex toPrimitiveThrows xs"
| "toPrimitiveThrows (JObj kvs) = list_ex (\<lambda>kv. fst kv = js ''toString'') kvs"
| "toPrimitiveThrows JUndefined = False"
| "toPrimitiveThrows JNull = False"
| "toPrimitiveThrows (JBool b) = False"
| "toPrimitiveThrows (JNum n) = False"
| "toPrimitiveThrows (JStr s) = False"

text \<open>
  The number read from the joined string of an array, when no element throws: the empty
  array gives the empty string, a single element gives its own string, and two or more
  elements give a string with a comma, which is no numeric literal. A number printed and
  read again is the same number.
\<close>

fun arrayToNumber :: "jsvalue list \<Rightarrow> jsnum"
  and elementToNumber :: "jsvalue \<Rightarrow> jsnum" where
  "arrayToNumber [] = Fin 0"
| "arrayToNumber [x] = elementToNumber x"
| "arrayToNumber (x # y # zs) = NaN"
| "elementToNumber JUndefined = Fin 0"
| "elementToNumber JNull = Fin 0"
| "elementToNumber (JBool b) = NaN"
| "elementToNumber (JNum n) = n"
| "elementToNumber (JStr s) = StringToNumber s"
| "elementToNumber (JArr xs) = arrayToNumber xs"
| "elementToNumber (JObj kvs) = NaN"

fun Number :: "jsvalue \<Rightarrow> thrown + jsnum" where
  "Number JUndefined = Inr NaN"
| "Number JNull = Inr (Fin 0)"
| "Number (JBool b) = Inr (Fin (if b then 1 else 0))"
| "Number (JNum n) = Inr n"
| "Number (JStr s) = Inr (StringToNumber s)"
| "Number (JArr xs) =
     (if toPrimitiveThrows (JArr xs) then Inl TypeError else Inr (arrayToNumber xs))"
| "Number (JObj kvs) =
     (if toPrimitiveThrows (JObj kvs) then Inl TypeError else Inr NaN)"

section \<open>The item store\<close>

text \<open>
  The ids in the store are the seed ids 1 and 2 and values of the counter \<^verbatim>\<open>nextId\<close>, which
  starts at 3 and changes only in \<^verbatim>\<open>nextId++\<close>. Both are JavaScript numbers whose value is a
  natural number and are kept as natural numbers here. \<^verbatim>\<open>nextId++\<close> stores the sum of the
  counter and 1 rounded to a double: below \<open>2\<^sup>5\<^sup>3\<close> that is the successor; at \<open>2\<^sup>5\<^sup>3\<close> the
  sum lies halfway between two doubles and is rounded to \<open>2\<^sup>5\<^sup>3\<close> again. (The sum of a
  counter beyond the largest double would be \<^verbatim>\<open>Infinity\<close>; no natural number that large is
  the value of a double, and \<open>increment\<close> leaves it as it is.)
\<close>

record item =
  item_id :: nat
  item_name :: jsstring
  item_price :: jsnum

record state =
  items :: "item list"
  nextId :: nat

definition seed :: state where
  "seed = \<lparr>items = [\<lparr>item_id = 1, item_name = js ''Notebook'', item_price = Fin (9 / 2)\<rparr>,
                    \<lparr>item_id = 2, item_name = js ''Pen'', item_price = Fin (5 / 4)\<rparr>],
          nextId = 3\<rparr>"

definition idLimit :: nat where
  "idLimit = 2 ^ 53"

definition increment :: "nat \<Rightarrow> nat" where
  "increment n =
     (case roundToDouble (of_nat n + 1) of
        Fin q \<Rightarrow> nat \<lfloor>q\<rfloor>
      | _ \<Rightarrow> n)"

text \<open>\<^verbatim>\<open>x.id === id\<close>, for the id \<open>n\<close> of a stored item and a number \<open>i\<close> taken from the URL.\<close>

definition strictEq :: "nat \<Rightarrow> jsnum \<Rightarrow> bool" where
  "strictEq n i \<longleftrightarrow> i = Fin (of_nat n)"

definition findItem :: "state \<Rightarrow> jsnum \<Rightarrow> item option" where
  "findItem s i = find (\<lambda>x. strictEq (item_id x) i) (items s)"

fun findIndex :: "('a \<Rightarrow> bool) \<Rightarrow> 'a list \<Rightarrow> nat option" where
  "findIndex P [] = None"
| "findIndex P (x # xs) = (if P x then Some 0 else map_option Suc (findIndex P xs))"

text \<open>
  \<^verbatim>\<open>existing\<close> is the object that \<^verbatim>\<open>findItem\<close> returned, the first one in the array with
  the id; an assignment to one of its properties changes that element of the array.
\<close>

fun assignFirst :: "('a \<Rightarrow> bool) \<Rightarrow> ('a \<Rightarrow> 'a) \<Rightarrow> 'a list \<Rightarrow> 'a list" where
  "assignFirst P f [] = []"
| "assignFirst P f (x # xs) = (if P x then f x # xs else x # assignFirst P f xs)"

definition assignExisting :: "jsnum \<Rightarrow> (item \<Rightarrow> item) \<Rightarrow> state \<Rightarrow> state" where
  "assignExisting i f s = s\<lparr>items := assignFirst (\<lambda>x. strictEq (item_id x) i) f (items s)\<rparr>"

section \<open>Responses\<close>

text \<open>
  A template literal is kept as its pieces, so that \<^verbatim>\<open>`No item with id ${id}`\<close> is
  \<open>[Lit ''No item with id '', Val id]\<close>; \<open>Str\<close> is a piece that is a string of the store.
  A response has its status, the headers the handler sets (in the order it sets them) and
  its body: nothing, a text, or the JSON of an item, of an error object, of the item list, of
  the endpoint index or of the summary of the request that \<^verbatim>\<open>/echo\<close> sends back (whose
  content is not modelled).
\<close>

datatype piece = Lit string | Val jsnum | Str jsstring

datatype body =
    NoBody
  | Text string
  | JsonItem item
  | JsonError string "piece list"
  | JsonItems nat "item list"
  | JsonIndex string "(string \<times> string) list"
  | JsonEcho

record response =
  status :: nat
  headers :: "(string \<times> piece list) list"
  body :: body

definition notFound :: "jsnum \<Rightarrow> response" where
  "notFound i =
     \<lparr>status = 404, headers = [],
      body = JsonError ''not_found'' [Lit ''No item with id '', Val i]\<rparr>"

definition badRequest :: "string \<Rightarrow> response" where
  "badRequest m = \<lparr>status = 400, headers = [], body = JsonError ''bad_request'' [Lit m]\<rparr>"

definition ok :: "string \<Rightarrow> item \<Rightarrow> response" where
  "ok demo x = \<lparr>status = 200, headers = [(''X-Demo'', [Lit demo])], body = JsonItem x\<rparr>"

section \<open>The handlers\<close>

text \<open>
  A handler that changes the store returns the new store and either the response it sent or
  the exception that left it; the store keeps every assignment made before the exception.
  The route parameter \<^verbatim>\<open>req.params.id\<close> is a string, and \<^verbatim>\<open>req.body\<close> is read through
  \<^verbatim>\<open>const { name, price } = req.body\<close>.
\<close>

record reqBody =
  body_name :: jsvalue
  body_price :: jsvalue

type_synonym outcome = "thrown + response"

subsection \<open>\<^verbatim>\<open>GET /\<close>\<close>

text \<open>
  \<^verbatim>\<open>req.accepts\<close> belongs to Express, not to this repository. The handler takes it as a
  parameter: \<open>accepts t\<close> is true when \<^verbatim>\<open>req.accepts(t)\<close> is not \<^verbatim>\<open>false\<close>.
\<close>

definition joinLines :: "string list \<Rightarrow> string" where
  "joinLines ls = (case ls of [] \<Rightarrow> [] | l # r \<Rightarrow> l @ concat (map (\<lambda>x. CHR 0x0A # x) r))"

definition endpoints :: "(string \<times> string) list" where
  "endpoints =
     [(''GET'', ''/items''), (''GET'', ''/items/:id''), (''POST'', ''/items''),
      (''PUT'', ''/items/:id''), (''PATCH'', ''/items/:id''), (''DELETE'', ''/items/:id''),
      (''HEAD'', ''/items/:id''), (''OPTIONS'', ''/items''), (''GET'', ''/page''),
      (''ANY'', ''/echo'')]"

definition plainIndex :: string where
  "plainIndex = joinLines
     [''Express REST Demo'', [], ''Try:'',
      ''  GET     /items'', ''  GET     /items/:id'', ''  POST    /items'',
      ''  PUT     /items/:id'', ''  PATCH   /items/:id'', ''  DELETE  /items/:id'',
      ''  HEAD    /items/:id'', ''  OPTIONS /items'', ''  GET     /page'',
      ''  ANY     /echo'', []]"

definition xmlIndex :: string where
  \<open>xmlIndex = joinLines
     ([''<?xml version="1.0" encoding="UTF-8"?>'', ''<demo>'',
       ''  <message>Express REST Demo</message>'', ''  <endpoints>'']
      @ map (\<lambda>(m, p). ''    <endpoint><method>'' @ m @ ''</method><path>'' @ p
                          @ ''</path></endpoint>'') endpoints
      @ [''  </endpoints>'', ''</demo>''])\<close>

definition htmlIndex :: string where
  "htmlIndex = joinLines
     ([''<h1>Express REST Demo</h1>'', ''<p>Try the following endpoints:</p>'', ''<ul>'']
      @ map (\<lambda>(m, p). ''  <li>'' @ m @ '' '' @ p @ ''</li>'') endpoints
      @ [''</ul>''])"

definition contentType :: "string \<Rightarrow> string \<times> piece list" where
  "contentType t = (''Content-Type'', [Lit t])"

definition getRoot :: "(string \<Rightarrow> bool) \<Rightarrow> response" where
  "getRoot accepts =
     (if accepts ''text/plain'' then
        \<lparr>status = 200, headers = [contentType ''text/plain''], body = Text plainIndex\<rparr>
      else if accepts ''application/json'' then
        \<lparr>status = 200, headers = [], body = JsonIndex ''Express REST Demo'' endpoints\<rparr>
      else if accepts ''application/xml'' then
        \<lparr>status = 200, headers = [contentType ''application/xml''], body = Text xmlIndex\<rparr>
      else if accepts ''text/html'' then
        \<lparr>status = 200, headers = [contentType ''text/html''], body = Text htmlIndex\<rparr>
      else
        \<lparr>status = 406, headers = [contentType ''text/plain''], body = Text ''Not Acceptable''\<rparr>)"

subsection \<open>\<^verbatim>\<open>GET /page\<close>, \<^verbatim>\<open>/echo\<close>, \<^verbatim>\<open>OPTIONS /items\<close> and the default 404\<close>

definition pageHtml :: string where
  \<open>pageHtml = joinLines
     [''<!doctype html>'',
      ''<html lang="en">'',
      ''<head>'',
      ''  <meta charset="utf-8" />'',
      ''  <meta name="viewport" content="width=device-width, initial-scale=1" />'',
      ''  <title>HTTP HTML + Image Demo</title>'',
      ''  <style>body{font-family:system-ui,Segoe UI,Arial,sans-serif;max-width:820px;margin:40px auto;padding:0 16px}code{background:#f3f4f6;padding:2px 6px;border-radius:6px}</style>'',
      ''</head>'',
      ''<body>'',
      ''  <h1>HTML response referencing an image</h1>'',
      ''  <p>This HTML came from <code>GET /page</code>.</p>'',
      ''  <p>The image below is requested separately by the browser from <code>/images/demo.svg</code>.</p>'',
      ''  <img src="/images/demo.svg" alt="HTTP demo image" width="320" height="120" />'',
      ''</body>'',
      ''</html>'']\<close>

definition getPage :: response where
  "getPage = \<lparr>status = 200, headers = [contentType ''text/html''], body = Text pageHtml\<rparr>"

definition echo :: response where
  "echo = \<lparr>status = 200, headers = [(''X-Demo'', [Lit ''echo''])], body = JsonEcho\<rparr>"

definition optionsItems :: response where
  "optionsItems =
     \<lparr>status = 204,
      headers = [(''Allow'', [Lit ''GET,POST,OPTIONS'']), (''X-Demo'', [Lit ''items-options''])],
      body = NoBody\<rparr>"

definition routeNotFound :: response where
  "routeNotFound =
     \<lparr>status = 404, headers = [], body = JsonError ''not_found'' [Lit ''Route not found'']\<rparr>"

subsection \<open>\<^verbatim>\<open>GET /items\<close>, \<^verbatim>\<open>GET /items/:id\<close> and \<^verbatim>\<open>HEAD /items/:id\<close>\<close>

definition getItems :: "state \<Rightarrow> response" where
  "getItems s =
     \<lparr>status = 200, headers = [(''X-Demo'', [Lit ''items-list''])],
      body = JsonItems (length (items s)) (items s)\<rparr>"

definition getItem :: "jsstring \<Rightarrow> state \<Rightarrow> response" where
  "getItem idParam s =
     (let i = StringToNumber idParam
      in case findItem s i of
           None \<Rightarrow> notFound i
         | Some x \<Rightarrow> ok ''items-get'' x)"

text \<open>
  The function registered with \<^verbatim>\<open>app.head('/items/:id', ...)\<close>. \<^verbatim>\<open>res.sendStatus(404)\<close> sends
  the status text as plain text; the answer to a HEAD request goes out without it.
  \<^verbatim>\<open>res.set\<close> hands the value to Node's \<^verbatim>\<open>setHeader\<close>, which throws a \<^verbatim>\<open>TypeError\<close> for a value
  with a character other than TAB, U+0020 to U+007E and U+0080 to U+00FF.
\<close>

definition validHeaderChar :: "16 word \<Rightarrow> bool" where
  "validHeaderChar c \<longleftrightarrow> c = 0x9 \<or> (0x20 \<le> c \<and> c \<le> 0x7E) \<or> (0x80 \<le> c \<and> c \<le> 0xFF)"

definition headItem :: "jsstring \<Rightarrow> state \<Rightarrow> outcome" where
  "headItem idParam s =
     (let i = StringToNumber idParam
      in case findItem s i of
           None \<Rightarrow> Inr \<lparr>status = 404, headers = [contentType ''text/plain''], body = NoBody\<rparr>
         | Some x \<Rightarrow>
             if list_all validHeaderChar (item_name x)
             then Inr \<lparr>status = 200,
                       headers = [(''X-Item-Id'', [Val (Fin (of_nat (item_id x)))]),
                                  (''X-Item-Name'', [Str (item_name x)])],
                       body = NoBody\<rparr>
             else Inl TypeError)"

text \<open>
  That function is never reached. Express 4 lets a route registered with \<^verbatim>\<open>app.get\<close> answer
  HEAD requests too, unless the same route has a HEAD handler of its own; the route of
  \<^verbatim>\<open>app.get('/items/:id', ...)\<close> is registered first, so a HEAD request runs the GET handler,
  and the response goes out with the status and the headers of the GET response and no
  body. The same holds for the other paths with a GET route.
\<close>

definition withoutBody :: "response \<Rightarrow> response" where
  "withoutBody r = r\<lparr>body := NoBody\<rparr>"

subsection \<open>\<^verbatim>\<open>POST /items\<close>\<close>

definition postItems :: "reqBody \<Rightarrow> state \<Rightarrow> state \<times> outcome" where
  "postItems b s =
     (case body_name b of
        JStr n \<Rightarrow>
          if trim n = [] then (s, Inr (badRequest ''name is required (string)''))
          else
            (case Number (body_price b) of
               Inl e \<Rightarrow> (s, Inl e)
             | Inr numericPrice \<Rightarrow>
                 if \<not> isFinite numericPrice \<or> lessZero numericPrice
                 then (s, Inr (badRequest ''price must be a non-negative number''))
                 else
                   let x = \<lparr>item_id = nextId s, item_name = trim n, item_price = numericPrice\<rparr>
                   in (s\<lparr>items := items s @ [x], nextId := increment (nextId s)\<rparr>,
                       Inr \<lparr>status = 201,
                            headers = [(''X-Demo'', [Lit ''items-create'']),
                                       (''Location'', [Lit ''/items/'', Val (Fin (of_nat (item_id x)))])],
                            body = JsonItem x\<rparr>))
      | _ \<Rightarrow> (s, Inr (badRequest ''name is required (string)'')))"

subsection \<open>\<^verbatim>\<open>PUT /items/:id\<close>\<close>

definition putItem :: "jsstring \<Rightarrow> reqBody \<Rightarrow> state \<Rightarrow> state \<times> outcome" where
  "putItem idParam b s =
     (let i = StringToNumber idParam
      in case findItem s i of
           None \<Rightarrow> (s, Inr (notFound i))
         | Some existing \<Rightarrow>
             (case body_name b of
                JStr n \<Rightarrow>
                  if trim n = [] then (s, Inr (badRequest ''name is required (string)''))
                  else
                    (case Number (body_price b) of
                       Inl e \<Rightarrow> (s, Inl e)
                     | Inr numericPrice \<Rightarrow>
                         if \<not> isFinite numericPrice \<or> lessZero numericPrice
                         then (s, Inr (badRequest ''price must be a non-negative number''))
                         else
                           (assignExisting i
                              (\<lambda>x. x\<lparr>item_name := trim n, item_price := numericPrice\<rparr>) s,
                            Inr (ok ''items-put''
                                   (existing\<lparr>item_name := trim n, item_price := numericPrice\<rparr>))))
              | _ \<Rightarrow> (s, Inr (badRequest ''name is required (string)''))))"

subsection \<open>\<^verbatim>\<open>PATCH /items/:id\<close>\<close>

text \<open>
  The two blocks of the handler run one after the other: \<open>patchName\<close> is the block guarded
  by \<^verbatim>\<open>name !== undefined\<close>, \<open>patchPrice\<close> the block guarded by \<^verbatim>\<open>price !== undefined\<close> with
  the final response. Each takes the store and \<^verbatim>\<open>existing\<close> as they are when it starts; a
  block that returns or throws gives \<open>Inl\<close>.
\<close>

definition patchName ::
  "jsnum \<Rightarrow> jsvalue \<Rightarrow> state \<times> item \<Rightarrow> (state \<times> outcome) + (state \<times> item)" where
  "patchName i name = (\<lambda>(s, existing).
     case name of
       JUndefined \<Rightarrow> Inr (s, existing)
     | JStr n \<Rightarrow>
         if trim n = [] then Inl (s, Inr (badRequest ''name must be a non-empty string''))
         else Inr (assignExisting i (\<lambda>x. x\<lparr>item_name := trim n\<rparr>) s,
                   existing\<lparr>item_name := trim n\<rparr>)
     | _ \<Rightarrow> Inl (s, Inr (badRequest ''name must be a non-empty string'')))"

definition patchPrice :: "jsnum \<Rightarrow> jsvalue \<Rightarrow> state \<times> item \<Rightarrow> state \<times> outcome" where
  "patchPrice i price = (\<lambda>(s, existing).
     if price = JUndefined then (s, Inr (ok ''items-patch'' existing))
     else
       (case Number price of
          Inl e \<Rightarrow> (s, Inl e)
        | Inr numericPrice \<Rightarrow>
            if \<not> isFinite numericPrice \<or> lessZero numericPrice
            then (s, Inr (badRequest ''price must be a non-negative number''))
            else (assignExisting i (\<lambda>x. x\<lparr>item_price := numericPrice\<rparr>) s,
                  Inr (ok ''items-patch'' (existing\<lparr>item_price := numericPrice\<rparr>)))))"

definition patchItem :: "jsstring \<Rightarrow> reqBody \<Rightarrow> state \<Rightarrow> state \<times> outcome" where
  "patchItem idParam b s =
     (let i = StringToNumber idParam
      in case findItem s i of
           None \<Rightarrow> (s, Inr (notFound i))
         | Some existing \<Rightarrow>
             (case patchName i (body_name b) (s, existing) of
                Inl done \<Rightarrow> done
              | Inr cont \<Rightarrow> patchPrice i (body_price b) cont))"

subsection \<open>\<^verbatim>\<open>DELETE /items/:id\<close>\<close>

definition deleteItem :: "jsstring \<Rightarrow> state \<Rightarrow> state \<times> outcome" where
  "deleteItem idParam s =
     (let i = StringToNumber idParam
      in case findIndex (\<lambda>x. strictEq (item_id x) i) (items s) of
           None \<Rightarrow> (s, Inr (notFound i))
         | Some idx \<Rightarrow>
             (s\<lparr>items := take idx (items s) @ drop (Suc idx) (items s)\<rparr>,
              Inr \<lparr>status = 204, headers = [(''X-Demo'', [Lit ''items-delete''])],
                   body = NoBody\<rparr>))"

subsection \<open>The server as a whole\<close>

text \<open>
  The requests the routes of the source answer, each with what its handler reads of it.
  \<open>ANY_echo\<close> is a request to \<^verbatim>\<open>/echo\<close> with a method other than HEAD, \<open>Unmatched\<close> a request
  that no route matches. Requests that Express answers without a handler of the source
  (static files, OPTIONS for a path with routes but no OPTIONS handler) do not touch the
  store and are left out.
\<close>

datatype request =
    GET_root "string \<Rightarrow> bool"
  | HEAD_root "string \<Rightarrow> bool"
  | GET_page
  | HEAD_page
  | ANY_echo
  | HEAD_echo
  | GET_items
  | HEAD_items
  | GET_item jsstring
  | HEAD_item jsstring
  | POST_items reqBody
  | PUT_item jsstring reqBody
  | PATCH_item jsstring reqBody
  | DELETE_item jsstring
  | OPTIONS_items
  | Unmatched

fun handle :: "request \<Rightarrow> state \<Rightarrow> state \<times> outcome" where
  "handle (GET_root accepts) s = (s, Inr (getRoot accepts))"
| "handle (HEAD_root accepts) s = (s, Inr (withoutBody (getRoot accepts)))"
| "handle GET_page s = (s, Inr getPage)"
| "handle HEAD_page s = (s, Inr (withoutBody getPage))"
| "handle ANY_echo s = (s, Inr echo)"
| "handle HEAD_echo s = (s, Inr (withoutBody echo))"
| "handle GET_items s = (s, Inr (getItems s))"
| "handle HEAD_items s = (s, Inr (withoutBody (getItems s)))"
| "handle (GET_item p) s = (s, Inr (getItem p s))"
| "handle (HEAD_item p) s = (s, Inr (withoutBody (getItem p s)))"
| "handle (POST_items b) s = postItems b s"
| "handle (PUT_item p b) s = putItem p b s"
| "handle (PATCH_item p b) s = patchItem p b s"
| "handle (DELETE_item p) s = deleteItem p s"
| "handle OPTIONS_items s = (s, Inr optionsItems)"
| "handle Unmatched s = (s, Inr routeNotFound)"

text \<open>
  The id a response announces as created: the id of the item in the body of a 201.
\<close>

fun createdId :: "outcome \<Rightarrow> nat option" where
  "createdId (Inl e) = None"
| "createdId (Inr r) =
     (if status r = 201 then (case body r of JsonItem x \<Rightarrow> Some (item_id x) | _ \<Rightarrow> None)
      else None)"

text \<open>
  Serving a list of requests one after the other, from a store and the list of the ids
  issued so far, to which every 201 adds its id; at the start these are the ids of the seed
  items.
\<close>

definition issue :: "nat list \<Rightarrow> outcome \<Rightarrow> nat list" where
  "issue issued out = (case createdId out of None \<Rightarrow> issued | Some n \<Rightarrow> issued @ [n])"

fun serve :: "request list \<Rightarrow> state \<times> nat list \<Rightarrow> state \<times> nat list" where
  "serve [] c = c"
| "serve (r # rs) (s, issued) =
     (case handle r s of (s', out) \<Rightarrow> serve rs (s', issue issued out))"

definition start :: "state \<times> nat list" where
  "start = (seed, map item_id (items seed))"

section \<open>Content negotiation of a client\<close>

text \<open>
  What \<^verbatim>\<open>req.accepts\<close> answers for a client, after the packages \<^verbatim>\<open>accepts\<close> and \<^verbatim>\<open>negotiator\<close>
  that Express uses. A request without an \<^verbatim>\<open>Accept\<close> header, or with an empty one, accepts
  every type. Otherwise the header is a list of media ranges, here without parameters other
  than the quality; type and subtype are compared in lower case; of the ranges that match a
  type the most specific one decides (a full type before \<^verbatim>\<open>type/*\<close> before \<^verbatim>\<open>*/*\<close>), among
  equally specific ones the highest quality, and the type is acceptable when that quality
  is positive.
\<close>

record mediaRange =
  range_type :: string
  range_subtype :: string
  range_q :: rat

text \<open>
  \<^verbatim>\<open>toLowerCase\<close> on the characters a header can hold, U+0000 to U+00FF: the letters A to Z
  and U+00C0 to U+00DE other than U+00D7 have their lower-case letter 32 places on.
\<close>

definition toLowerCase :: "string \<Rightarrow> string" where
  "toLowerCase cs =
     map (\<lambda>c. let n = of_char c :: nat
               in if (65 \<le> n \<and> n \<le> 90) \<or> (192 \<le> n \<and> n \<le> 222 \<and> n \<noteq> 215)
                  then char_of (n + 32) else c) cs"

definition specify :: "string \<Rightarrow> string \<Rightarrow> mediaRange \<Rightarrow> nat option" where
  "specify t st r =
     (if toLowerCase (range_type r) \<noteq> toLowerCase t \<and> range_type r \<noteq> ''*'' then None
      else if toLowerCase (range_subtype r) \<noteq> toLowerCase st \<and> range_subtype r \<noteq> ''*''
        then None
      else Some ((if toLowerCase (range_type r) = toLowerCase t then 4 else 0)
                 + (if toLowerCase (range_subtype r) = toLowerCase st then 2 else 0)))"

definition mediaTypePriority :: "string \<Rightarrow> string \<Rightarrow> mediaRange list \<Rightarrow> nat \<times> rat" where
  "mediaTypePriority t st rs =
     foldl (\<lambda>p r. case specify t st r of
                     None \<Rightarrow> p
                   | Some sp \<Rightarrow>
                       if fst p < sp \<or> (fst p = sp \<and> snd p < range_q r) then (sp, range_q r)
                       else p)
       (0, 0) rs"

definition reqAccepts :: "mediaRange list option \<Rightarrow> string \<Rightarrow> bool" where
  "reqAccepts accept mime =
     (case accept of
        None \<Rightarrow> True
      | Some rs \<Rightarrow>
          0 < snd (mediaTypePriority (takeWhile (\<lambda>c. c \<noteq> CHR ''/'') mime)
                     (drop 1 (dropWhile (\<lambda>c. c \<noteq> CHR ''/'') mime)) rs))"

definition acceptOnly :: "string \<Rightarrow> string \<Rightarrow> mediaRange list option" where
  "acceptOnly t st = Some [\<lparr>range_type = t, range_subtype = st, range_q = 1\<rparr>]"

section \<open>Notions used in the statements\<close>

text \<open>
  The validation rule of Create, as a function of a field of the body: the name that would
  be stored (the trimmed string, when the value is a string that is not empty after
  trimming) and the price that would be stored (the number \<^verbatim>\<open>Number(price)\<close>, when the
  conversion returns and its result is finite and not negative). A price is rejected when
  its conversion returns \<^verbatim>\<open>NaN\<close>, an infinity or a negative number.
\<close>

definition acceptedName :: "jsvalue \<Rightarrow> jsstring option" where
  "acceptedName v = (case v of JStr n \<Rightarrow> if trim n = [] then None else Some (trim n) | _ \<Rightarrow> None)"

definition acceptedPrice :: "jsvalue \<Rightarrow> jsnum option" where
  "acceptedPrice v =
     (case Number v of
        Inl e \<Rightarrow> None
      | Inr x \<Rightarrow> if isFinite x \<and> \<not> lessZero x then Some x else None)"

definition rejectedPrice :: "jsvalue \<Rightarrow> bool" where
  "rejectedPrice v =
     (case Number v of
        Inl e \<Rightarrow> False
      | Inr x \<Rightarrow> (case x of Fin q \<Rightarrow> q < 0 | PosInf \<Rightarrow> True | NegInf \<Rightarrow> True | NaN \<Rightarrow> True))"

text \<open>
  The item after a successful PATCH: each field that is present in the body has the value
  accepted for it, each field that is absent keeps its value. \<open>namePatched\<close> is the effect
  of the first block of the handler alone.
\<close>

definition namePatched :: "jsvalue \<Rightarrow> item \<Rightarrow> item" where
  "namePatched v y = (case v of JStr n \<Rightarrow> y\<lparr>item_name := trim n\<rparr> | _ \<Rightarrow> y)"

definition patched :: "reqBody \<Rightarrow> item \<Rightarrow> item" where
  "patched b y =
     y\<lparr>item_name := (if body_name b = JUndefined then item_name y
                      else case_option (item_name y) (\<lambda>n. n) (acceptedName (body_name b))),
       item_price := (if body_price b = JUndefined then item_price y
                      else case_option (item_price y) (\<lambda>x. x) (acceptedPrice (body_price b)))\<rparr>"

text \<open>
  What a PartialUpdate leaves of an item in the store, whatever it answers. A name that is
  present and not accepted ends the request before the price is looked at: the name is
  refused, and the item stays as it is. Otherwise the item has the name accepted for it when
  a name is present, and the price accepted for it when the price is present and accepted;
  every other field is kept.
\<close>

definition nameRefused :: "reqBody \<Rightarrow> bool" where
  "nameRefused b \<longleftrightarrow> body_name b \<noteq> JUndefined \<and> acceptedName (body_name b) = None"

definition stored :: "reqBody \<Rightarrow> item \<Rightarrow> item" where
  "stored b y =
     y\<lparr>item_name := (case acceptedName (body_name b) of Some n \<Rightarrow> n | None \<Rightarrow> item_name y),
       item_price := (if nameRefused b \<or> body_price b = JUndefined then item_price y
                      else case acceptedPrice (body_price b) of
                             Some x \<Rightarrow> x
                           | None \<Rightarrow> item_price y)\<rparr>"

text \<open>
  The invariant of the store together with the ids issued so far. The counter is at most
  \<open>2\<^sup>5\<^sup>3\<close>; and as long as the id \<open>2\<^sup>5\<^sup>3\<close> has not been issued, the ids in the store are
  distinct and have all been issued, the ids were issued in increasing order, and the
  counter is above all of them.
\<close>

definition wellFormed :: "state \<times> nat list \<Rightarrow> bool" where
  "wellFormed c \<longleftrightarrow>
     (case c of (s, issued) \<Rightarrow>
        nextId s \<le> idLimit
        \<and> (idLimit \<notin> set issued \<longrightarrow>
              distinct (map item_id (items s))
              \<and> set (map item_id (items s)) \<subseteq> set issued
              \<and> sorted_wrt (<) issued
              \<and> (\<forall>n \<in> set issued. n < nextId s)))"

text \<open>
  The decimal numeral of a natural number: what the \<^verbatim>\<open>Location\<close> header of a 201 shows for
  an id below \<open>10\<^sup>2\<^sup>1\<close>, and what a client puts into the path \<^verbatim>\<open>/items/<id>\<close>.
\<close>

definition digitChar :: "nat \<Rightarrow> 16 word" where
  "digitChar d = of_nat (48 + d)"

fun decimal :: "nat \<Rightarrow> jsstring" where
  "decimal n =
     (if n < 10 then [digitChar n] else decimal (n div 10) @ [digitChar (n mod 10)])"

declare decimal.simps [simp del]

text \<open>
  A client that creates an item and deletes it again by the id it was given, \<open>k\<close> times
  over, the first time when the counter is \<open>n\<close>.
\<close>

fun churn :: "reqBody \<Rightarrow> nat \<Rightarrow> nat \<Rightarrow> request list" where
  "churn b n 0 = []"
| "churn b n (Suc k) = POST_items b # DELETE_item (decimal n) # churn b (Suc n) k"

text \<open>The two seed items.\<close>

definition notebook :: item where
  "notebook = \<lparr>item_id = 1, item_name = js ''Notebook'', item_price = Fin (9 / 2)\<rparr>"

definition pen :: item where
  "pen = \<lparr>item_id = 2, item_name = js ''Pen'', item_price = Fin (5 / 4)\<rparr>"

section \<open>Evaluation of literals\<close>

lemma js_Nil: "js [] = []"
  by (simp add: js_def)

lemma js_Cons: "js (c # cs) = of_nat (of_char c) # js cs"
  by (simp add: js_def)

lemmas js_simps = js_Nil js_Cons

lemma js_nonempty: "js (c # cs) \<noteq> []"
  by (simp add: js_def)

lemma trim_Pen: "trim (js ''  Pen  '') = js ''Pen''"
  by (simp add: trim_def js_simps isWhiteSpace_def)

lemma trim_Pen_plain: "trim (js ''Pen'') = js ''Pen''"
  by (simp add: trim_def js_simps isWhiteSpace_def)

lemma trim_blanks: "trim (js ''   '') = []"
  by (simp add: trim_def js_simps isWhiteSpace_def)

lemma trim_Marker: "trim (js ''Marker'') = js ''Marker''"
  by (simp add: trim_def js_simps isWhiteSpace_def)

lemma trim_Eraser: "trim (js ''Eraser'') = js ''Eraser''"
  by (simp add: trim_def js_simps isWhiteSpace_def)

lemma trim_Pencil: "trim (js ''Pencil'') = js ''Pencil''"
  by (simp add: trim_def js_simps isWhiteSpace_def)

lemma trim_blank:
  assumes "list_all isWhiteSpace w"
  shows "trim w = []"
proof -
  from assms have "dropWhile isWhiteSpace w = []" by (induction w) auto
  then show ?thesis by (simp only: trim_def rev.simps dropWhile.simps)
qed

lemma StringToNumber_blank: "list_all isWhiteSpace w \<Longrightarrow> StringToNumber w = Fin 0"
  by (simp add: StringToNumber_def trim_blank)

lemma StringToNumber_1: "StringToNumber (js ''1'') = Fin 1"
  by code_simp

lemma StringToNumber_2: "StringToNumber (js ''2'') = Fin 2"
  by code_simp

lemma StringToNumber_3: "StringToNumber (js ''3'') = Fin 3"
  by code_simp

lemma StringToNumber_9: "StringToNumber (js ''9'') = Fin 9"
  by code_simp

lemma StringToNumber_2_75: "StringToNumber (js ''2.75'') = Fin (11 / 4)"
  by code_simp

lemma StringToNumber_abc: "StringToNumber (js ''abc'') = NaN"
  by code_simp

lemma Number_toString_object: "Number (JObj [(js ''toString'', JNum (Fin 1))]) = Inl TypeError"
  by (simp add: js_simps)

section \<open>Natural numbers as JavaScript numbers\<close>

text \<open>
  A natural number below \<open>2\<^sup>5\<^sup>3\<close> is a double, so rounding leaves it as it is; this gives the
  two cases of \<^verbatim>\<open>nextId++\<close>.
\<close>

lemma roundTiesToEven_int: "roundTiesToEven (of_int m) = m"
  by (simp add: roundTiesToEven_def)

lemma pow2_nonpos: "p \<le> 0 \<Longrightarrow> pow2 p = 1 / 2 ^ nat (- p)"
  by (simp add: pow2_def)

lemma floorLog2_nat_le:
  assumes "k < 2 ^ 53"
  shows "floorLog2 (of_nat k) \<le> 52"
proof -
  have q: "quotient_of (of_nat k) = (int k, 1)"
    using quotient_of_int [of "int k"] by (simp add: Rat.of_int_def)
  have "bitlen (int k) \<le> 53"
    using assms by (simp add: bitlen_le_iff_power)
  moreover have "bitlen 1 = 1"
    by (simp add: bitlen_alt_def)
  ultimately show ?thesis
    by (simp add: floorLog2_def q Let_def)
qed

lemma roundPos_nat:
  assumes "0 < k" and "k < 2 ^ 53"
  shows "roundPos (of_nat k) = Fin (of_nat k)"
proof -
  define p where "p = max (floorLog2 (of_nat k)) (- 1022) - 52"
  have p: "p \<le> 0"
    using floorLog2_nat_le [OF assms(2)] by (simp add: p_def)
  have "of_nat k / pow2 p = (of_int (int k * 2 ^ nat (- p)) :: rat)"
    by (simp add: pow2_nonpos [OF p])
  then have r: "roundTiesToEven (of_nat k / pow2 p) = int k * 2 ^ nat (- p)"
    by (simp only: roundTiesToEven_int)
  have v: "of_int (int k * 2 ^ nat (- p)) * pow2 p = (of_nat k :: rat)"
    by (simp add: pow2_nonpos [OF p])
  have lt: "(of_nat k :: rat) < 2 ^ 1024"
  proof -
    have "(of_nat k :: rat) < of_nat (2 ^ 53)"
      using assms(2) by (simp only: of_nat_less_iff)
    also have "\<dots> \<le> 2 ^ 1024" by simp
    finally show ?thesis .
  qed
  show ?thesis
    unfolding roundPos_def Let_def p_def [symmetric] r v
    using lt by simp
qed

lemma roundToDouble_nat:
  assumes "k < 2 ^ 53"
  shows "roundToDouble (of_nat k) = Fin (of_nat k)"
proof (cases "k = 0")
  case True
  then show ?thesis by (simp add: roundToDouble_def)
next
  case False
  then have "0 < k" by simp
  from roundPos_nat [OF this assms] False show ?thesis
    by (simp add: roundToDouble_def)
qed

lemma roundToDouble_2_53: "roundToDouble (2 ^ 53) = Fin (2 ^ 53)"
  by code_simp

lemma roundToDouble_2_53_1: "roundToDouble (2 ^ 53 + 1) = Fin (2 ^ 53)"
  by code_simp

lemma increment_exact:
  assumes "n < idLimit"
  shows "increment n = n + 1"
proof -
  from assms have n: "n < 2 ^ 53" by (simp add: idLimit_def)
  have e: "(of_nat n + 1 :: rat) = of_nat (n + 1)" by simp
  have "roundToDouble (of_nat (n + 1)) = Fin (of_nat (n + 1))"
  proof (cases "n + 1 < 2 ^ 53")
    case True
    then show ?thesis by (rule roundToDouble_nat)
  next
    case False
    with n have m: "n + 1 = 2 ^ 53" by simp
    have "(of_nat (n + 1) :: rat) = 2 ^ 53" by (simp only: m) simp
    then show ?thesis by (simp only: roundToDouble_2_53)
  qed
  then show ?thesis
    by (simp only: increment_def e jsnum.case floor_of_nat nat_int)
qed

lemma increment_stuck: "increment idLimit = idLimit"
proof -
  have e: "(of_nat (2 ^ 53) + 1 :: rat) = 2 ^ 53 + 1" by simp
  have f: "\<lfloor>2 ^ 53 :: rat\<rfloor> = 2 ^ 53" by simp
  have g: "nat (2 ^ 53) = 2 ^ 53" by simp
  show ?thesis
    by (simp only: idLimit_def increment_def e roundToDouble_2_53_1 jsnum.case f g)
qed

lemma increment_le: "n \<le> idLimit \<Longrightarrow> increment n \<le> idLimit"
  using increment_exact [of n] increment_stuck by (cases "n = idLimit") simp_all

lemma increment_3 [simp]: "increment 3 = 4"
  using increment_exact [of 3] by (simp add: idLimit_def)

lemma increment_4 [simp]: "increment 4 = 5"
  using increment_exact [of 4] by (simp add: idLimit_def)

text \<open>
  \<^verbatim>\<open>Number(...)\<close> of the decimal numeral of a natural number below \<open>2\<^sup>5\<^sup>3\<close> is that number.
\<close>

lemma unat_digitChar: "d < 10 \<Longrightarrow> unat (digitChar d) = 48 + d"
  by (simp only: digitChar_def unat_of_nat) simp

lemma isDecimalDigit_unat: "isDecimalDigit c \<longleftrightarrow> 48 \<le> unat c \<and> unat c \<le> 57"
  by (simp add: isDecimalDigit_def word_le_nat_alt)

lemma isDecimalDigit_digitChar: "d < 10 \<Longrightarrow> isDecimalDigit (digitChar d)"
  by (simp add: isDecimalDigit_unat unat_digitChar)

lemma digitValue_digitChar: "d < 10 \<Longrightarrow> digitValue (digitChar d) = d"
  by (simp add: digitValue_def isDecimalDigit_digitChar unat_digitChar)

lemma digit_not_space: "isDecimalDigit c \<Longrightarrow> \<not> isWhiteSpace c"
  by (auto simp add: isDecimalDigit_unat isWhiteSpace_def word_le_nat_alt)

lemma digits_decimal: "list_all isDecimalDigit (decimal n)"
proof (induction n rule: decimal.induct)
  case (1 n)
  show ?case
  proof (cases "n < 10")
    case True
    then show ?thesis
      by (simp add: decimal.simps [of n] isDecimalDigit_digitChar)
  next
    case False
    with 1 show ?thesis
      by (simp add: decimal.simps [of n] isDecimalDigit_digitChar)
  qed
qed

lemma decimal_nonempty: "decimal n \<noteq> []"
  by (simp add: decimal.simps [of n])

lemma digitsValue_snoc: "digitsValue r (ds @ [c]) = digitsValue r ds * r + digitValue c"
  by (simp add: digitsValue_def)

lemma digitsValue_decimal: "digitsValue 10 (decimal n) = n"
proof (induction n rule: decimal.induct)
  case (1 n)
  show ?case
  proof (cases "n < 10")
    case True
    then show ?thesis
      by (simp add: decimal.simps [of n] digitsValue_def digitValue_digitChar)
  next
    case False
    with 1 show ?thesis
      by (simp add: decimal.simps [of n] digitsValue_snoc digitValue_digitChar)
  qed
qed

lemma trim_digits:
  assumes "list_all isDecimalDigit s"
  shows "trim s = s"
proof (cases s rule: rev_cases)
  case Nil
  then show ?thesis by (simp add: trim_def)
next
  case (snoc t c)
  with assms have c: "\<not> isWhiteSpace c" by (simp add: digit_not_space)
  show ?thesis
  proof (cases s)
    case Nil
    with snoc show ?thesis by simp
  next
    case (Cons d u)
    with assms have "\<not> isWhiteSpace d" by (simp add: digit_not_space)
    with Cons have "dropWhile isWhiteSpace s = s" by simp
    moreover from snoc c have "dropWhile isWhiteSpace (rev s) = rev s" by simp
    ultimately show ?thesis by (simp add: trim_def)
  qed
qed

lemma StringToNumber_digits:
  assumes "list_all isDecimalDigit s" and "s \<noteq> []"
  shows "StringToNumber s = roundToDouble (of_nat (digitsValue 10 s))"
proof -
  from assms obtain c t where s: "s = c # t" by (cases s) auto
  with assms(1) have c: "isDecimalDigit c" by simp
  then have c': "c \<noteq> 0x2B" "c \<noteq> 0x2D" "c \<noteq> 0x49"
    by (auto simp add: isDecimalDigit_unat)
  have nd: "nonDecimalIntegerLiteral s = None"
  proof (cases t)
    case Nil
    with s show ?thesis by (simp add: nonDecimalIntegerLiteral_def)
  next
    case (Cons x ds)
    with s assms(1) have "isDecimalDigit x" by simp
    then have "x \<noteq> 0x78" "x \<noteq> 0x58" "x \<noteq> 0x6F" "x \<noteq> 0x4F" "x \<noteq> 0x62" "x \<noteq> 0x42"
      by (auto simp add: isDecimalDigit_unat)
    with s Cons show ?thesis by (simp add: nonDecimalIntegerLiteral_def)
  qed
  have inf: "s \<noteq> js ''Infinity''"
    using s c' by (auto simp add: js_def)
  have tw: "takeWhile isDecimalDigit s = s" "dropWhile isDecimalDigit s = []"
    using assms(1) by (simp_all add: list_all_iff)
  have "strUnsignedDecimalLiteral s = Some (roundToDouble (of_nat (digitsValue 10 s)))"
    using assms(2) inf
    by (simp add: strUnsignedDecimalLiteral_def tw exponentPart_def pow10_def)
  then have "strDecimalLiteral s = Some (roundToDouble (of_nat (digitsValue 10 s)))"
    using s c' by (simp add: strDecimalLiteral_def)
  with nd assms(2) show ?thesis
    by (simp add: StringToNumber_def trim_digits [OF assms(1)])
qed

lemma StringToNumber_decimal:
  assumes "n < idLimit"
  shows "StringToNumber (decimal n) = Fin (of_nat n)"
proof -
  from assms have "n < 2 ^ 53" by (simp add: idLimit_def)
  from roundToDouble_nat [OF this]
    StringToNumber_digits [OF digits_decimal decimal_nonempty, of n]
  show ?thesis by (simp add: digitsValue_decimal)
qed

section \<open>Searching and updating a list\<close>

lemma findIndex_None: "findIndex P xs = None \<longleftrightarrow> find P xs = None"
  by (induction xs) auto

lemma findIndex_Some:
  "findIndex P xs = Some k \<Longrightarrow> k < length xs \<and> P (xs ! k) \<and> find P xs = Some (xs ! k)"
  by (induction xs arbitrary: k) (auto split: if_splits)

lemma findIndex_first: "findIndex P xs = Some k \<Longrightarrow> j < k \<Longrightarrow> \<not> P (xs ! j)"
proof (induction xs arbitrary: k j)
  case Nil
  then show ?case by simp
next
  case (Cons x xs)
  then show ?case by (cases j) (auto split: if_splits)
qed

lemma find_Some_findIndex: "find P xs = Some x \<Longrightarrow> \<exists>k. findIndex P xs = Some k \<and> xs ! k = x"
  by (induction xs) (auto split: if_splits)

lemma find_append_None: "find P xs = None \<Longrightarrow> find P (xs @ ys) = find P ys"
  by (induction xs) (auto split: if_splits)

lemma assignFirst_length: "length (assignFirst P f xs) = length xs"
  by (induction xs) auto

lemma assignFirst_update:
  "findIndex P xs = Some k \<Longrightarrow> assignFirst P f xs = xs[k := f (xs ! k)]"
  by (induction xs arbitrary: k) (auto split: if_splits)

lemma assignFirst_none: "find P xs = None \<Longrightarrow> assignFirst P f xs = xs"
  by (induction xs) (auto split: if_splits)

lemma assignFirst_map:
  "(\<And>x. g (f x) = g x) \<Longrightarrow> map g (assignFirst P f xs) = map g xs"
  by (induction xs) auto

lemma assignFirst_find:
  "(\<And>x. P (f x) = P x) \<Longrightarrow> find P (assignFirst P f xs) = map_option f (find P xs)"
  by (induction xs) auto

lemma assignFirst_twice:
  "(\<And>x. P (f x) = P x) \<Longrightarrow>
     assignFirst P g (assignFirst P f xs) = assignFirst P (\<lambda>x. g (f x)) xs"
  by (induction xs) auto

lemma find_distinct_remove:
  assumes "distinct (map g xs)" and "\<And>x y. P x \<Longrightarrow> P y \<Longrightarrow> g x = g y"
    and "findIndex P xs = Some k"
  shows "find P (take k xs @ drop (Suc k) xs) = None"
  using assms(1,3)
proof (induction xs arbitrary: k)
  case Nil
  then show ?case by simp
next
  case (Cons x xs)
  show ?case
  proof (cases "P x")
    case True
    with Cons.prems have "k = 0" by simp
    moreover have "\<not> P y" if "y \<in> set xs" for y
    proof
      assume "P y"
      with True assms(2) have "g x = g y" by blast
      with that Cons.prems(1) show False by force
    qed
    ultimately show ?thesis by (simp add: find_None_iff)
  next
    case False
    with Cons.prems obtain k' where k: "k = Suc k'" "findIndex P xs = Some k'"
      by auto
    with Cons.IH [of k'] Cons.prems False show ?thesis by simp
  qed
qed

lemma remove_at_remove1:
  "findIndex P xs = Some k \<Longrightarrow> take k xs @ drop (Suc k) xs = remove1 (xs ! k) xs"
proof (induction xs arbitrary: k)
  case Nil
  then show ?case by simp
next
  case (Cons x xs)
  show ?case
  proof (cases "P x")
    case True
    with Cons.prems show ?thesis by simp
  next
    case False
    with Cons.prems obtain k' where k: "k = Suc k'" "findIndex P xs = Some k'"
      by auto
    from findIndex_Some [OF k(2)] False have "xs ! k' \<noteq> x" by auto
    with Cons.IH [OF k(2)] k show ?thesis by simp
  qed
qed

lemma distinct_remove_at: "distinct xs \<Longrightarrow> distinct (take k xs @ drop (Suc k) xs)"
  by (metis distinct_take distinct_drop distinct_append set_take_disj_set_drop_if_distinct
      Suc_n_not_le_n nat_le_linear not_less_eq_eq)

section \<open>The store\<close>

lemma strictEq_iff: "strictEq n (Fin (of_nat m)) \<longleftrightarrow> n = m"
  by (auto simp: strictEq_def)

lemma strictEq_same: "strictEq m i \<Longrightarrow> strictEq n i \<Longrightarrow> m = n"
  by (simp add: strictEq_def)

lemma findItem_Some:
  "findItem s i = Some x \<Longrightarrow> x \<in> set (items s) \<and> strictEq (item_id x) i"
  by (auto simp: findItem_def find_Some_iff)

lemma assignExisting_ids:
  "(\<And>x. item_id (f x) = item_id x) \<Longrightarrow>
     map item_id (items (assignExisting i f s)) = map item_id (items s)"
  by (simp add: assignExisting_def assignFirst_map)

lemma assignExisting_nextId: "nextId (assignExisting i f s) = nextId s"
  by (simp add: assignExisting_def)

lemma assignExisting_same [simp]: "assignExisting i (\<lambda>y. y) s = s"
proof -
  have "assignFirst P (\<lambda>y. y) xs = xs" for P and xs :: "item list"
    by (induction xs) auto
  then show ?thesis by (simp add: assignExisting_def)
qed

lemma findItem_assignExisting:
  "(\<And>y. item_id (f y) = item_id y) \<Longrightarrow>
     findItem (assignExisting i f s) i = map_option f (findItem s i)"
  by (simp add: findItem_def assignExisting_def assignFirst_find)

lemma assignExisting_twice:
  "(\<And>y. item_id (f y) = item_id y) \<Longrightarrow>
     assignExisting i g (assignExisting i f s) = assignExisting i (\<lambda>y. g (f y)) s"
  by (simp add: assignExisting_def assignFirst_twice)

lemma assignExisting_frame:
  assumes f: "findItem s i = Some e" and id: "\<And>y. item_id (f y) = item_id y"
  shows "nextId (assignExisting i f s) = nextId s
         \<and> length (items (assignExisting i f s)) = length (items s)
         \<and> map item_id (items (assignExisting i f s)) = map item_id (items s)
         \<and> (\<exists>k < length (items s). items s ! k = e
               \<and> items (assignExisting i f s) = (items s)[k := f e])"
proof -
  from f obtain k where k: "findIndex (\<lambda>y. strictEq (item_id y) i) (items s) = Some k"
    "items s ! k = e"
    unfolding findItem_def by (blast dest: find_Some_findIndex)
  from findIndex_Some [OF k(1)] have "k < length (items s)" by simp
  moreover have "items (assignExisting i f s) = (items s)[k := f e]"
    using assignFirst_update [OF k(1), of f] k(2) by (simp add: assignExisting_def)
  moreover have "map item_id (items (assignExisting i f s)) = map item_id (items s)"
    using id by (rule assignExisting_ids)
  moreover have "length (items (assignExisting i f s)) = length (items s)"
    by (simp add: assignExisting_def assignFirst_length)
  ultimately show ?thesis
    using k(2) assignExisting_nextId [of i f s] by blast
qed

lemma findItem_remove1_None:
  assumes d: "distinct (map item_id (items s))" and f: "findItem s i = Some x"
  shows "findItem (s\<lparr>items := remove1 x (items s)\<rparr>) i = None"
proof -
  from f obtain k where k: "findIndex (\<lambda>y. strictEq (item_id y) i) (items s) = Some k"
    "items s ! k = x"
    unfolding findItem_def by (blast dest: find_Some_findIndex)
  have "find (\<lambda>y. strictEq (item_id y) i) (take k (items s) @ drop (Suc k) (items s)) = None"
    using d _ k(1) by (rule find_distinct_remove) (rule strictEq_same)
  with k show ?thesis by (simp add: findItem_def remove_at_remove1 [OF k(1)])
qed

lemma seed_items: "items seed = [notebook, pen]" and seed_nextId: "nextId seed = 3"
  by (simp_all add: seed_def notebook_def pen_def)

lemma seed_eq: "seed = \<lparr>items = [notebook, pen], nextId = 3\<rparr>"
  by (simp add: seed_def notebook_def pen_def)

lemma findItem_seed_1: "findItem seed (Fin 1) = Some notebook"
  by (simp add: findItem_def seed_items strictEq_def notebook_def)

lemma findItem_seed_2: "findItem seed (Fin 2) = Some pen"
  by (simp add: findItem_def seed_items strictEq_def notebook_def pen_def)

lemma findItem_seed_3: "findItem seed (Fin 3) = None"
  by (simp add: findItem_def seed_items strictEq_def notebook_def pen_def)

lemma findItem_seed_9: "findItem seed (Fin 9) = None"
  by (simp add: findItem_def seed_items strictEq_def notebook_def pen_def)

lemma assign_seed_1:
  "assignExisting (Fin 1) f seed = \<lparr>items = [f notebook, pen], nextId = 3\<rparr>"
  by (simp add: assignExisting_def seed_eq strictEq_def notebook_def)

section \<open>What each handler does, case by case\<close>

subsection \<open>Create\<close>

lemma postItems_name_invalid:
  "(\<And>n. body_name b = JStr n \<Longrightarrow> trim n = []) \<Longrightarrow>
     postItems b s = (s, Inr (badRequest ''name is required (string)''))"
  by (simp add: postItems_def split: jsvalue.splits)

lemma postItems_price_throws:
  "body_name b = JStr n \<Longrightarrow> trim n \<noteq> [] \<Longrightarrow> Number (body_price b) = Inl e \<Longrightarrow>
     postItems b s = (s, Inl e)"
  by (simp add: postItems_def)

lemma postItems_price_invalid:
  "body_name b = JStr n \<Longrightarrow> trim n \<noteq> [] \<Longrightarrow> Number (body_price b) = Inr x \<Longrightarrow>
   \<not> isFinite x \<or> lessZero x \<Longrightarrow>
     postItems b s = (s, Inr (badRequest ''price must be a non-negative number''))"
  by (auto simp add: postItems_def)

lemma postItems_created:
  "body_name b = JStr n \<Longrightarrow> trim n \<noteq> [] \<Longrightarrow> Number (body_price b) = Inr x \<Longrightarrow>
   isFinite x \<Longrightarrow> \<not> lessZero x \<Longrightarrow>
     postItems b s =
       (s\<lparr>items := items s @ [\<lparr>item_id = nextId s, item_name = trim n, item_price = x\<rparr>],
          nextId := increment (nextId s)\<rparr>,
        Inr \<lparr>status = 201,
             headers = [(''X-Demo'', [Lit ''items-create'']),
                        (''Location'', [Lit ''/items/'', Val (Fin (of_nat (nextId s)))])],
             body = JsonItem \<lparr>item_id = nextId s, item_name = trim n, item_price = x\<rparr>\<rparr>)"
  by (simp add: postItems_def Let_def)

text \<open>
  The boundary cases of Create on the seed store: the name \<^verbatim>\<open>"  Pen  "\<close> is stored as
  \<^verbatim>\<open>"Pen"\<close> and the price 0 is accepted; a negative price, a price that is no numeric
  literal, a name of white space and a name that is no string are answered with 400.
\<close>

lemma create_boundaries:
  "(\<exists>s'. postItems \<lparr>body_name = JStr (js ''  Pen  ''), body_price = JNum (Fin 0)\<rparr> seed =
      (s', Inr \<lparr>status = 201,
                headers = [(''X-Demo'', [Lit ''items-create'']),
                           (''Location'', [Lit ''/items/'', Val (Fin 3)])],
                body = JsonItem \<lparr>item_id = 3, item_name = js ''Pen'', item_price = Fin 0\<rparr>\<rparr>))
   \<and> postItems \<lparr>body_name = JStr (js ''Pen''), body_price = JNum (Fin (- (1 / 100)))\<rparr> seed =
       (seed, Inr \<lparr>status = 400, headers = [],
                  body = JsonError ''bad_request'' [Lit ''price must be a non-negative number'']\<rparr>)
   \<and> postItems \<lparr>body_name = JStr (js ''Pen''), body_price = JStr (js ''abc'')\<rparr> seed =
       (seed, Inr \<lparr>status = 400, headers = [],
                  body = JsonError ''bad_request'' [Lit ''price must be a non-negative number'']\<rparr>)
   \<and> postItems \<lparr>body_name = JStr (js ''   ''), body_price = JNum (Fin 1)\<rparr> seed =
       (seed, Inr \<lparr>status = 400, headers = [],
                  body = JsonError ''bad_request'' [Lit ''name is required (string)'']\<rparr>)
   \<and> postItems \<lparr>body_name = JNum (Fin 7), body_price = JNum (Fin 1)\<rparr> seed =
       (seed, Inr \<lparr>status = 400, headers = [],
                  body = JsonError ''bad_request'' [Lit ''name is required (string)'']\<rparr>)"
proof -
  have 1: "\<exists>s'. postItems \<lparr>body_name = JStr (js ''  Pen  ''), body_price = JNum (Fin 0)\<rparr> seed =
      (s', Inr \<lparr>status = 201,
                headers = [(''X-Demo'', [Lit ''items-create'']),
                           (''Location'', [Lit ''/items/'', Val (Fin 3)])],
                body = JsonItem \<lparr>item_id = 3, item_name = js ''Pen'', item_price = Fin 0\<rparr>\<rparr>)"
    using postItems_created [of "\<lparr>body_name = JStr (js ''  Pen  ''), body_price = JNum (Fin 0)\<rparr>"
        "js ''  Pen  ''" "Fin 0" seed]
    by (simp add: trim_Pen js_nonempty seed_nextId)
  have 2: "postItems \<lparr>body_name = JStr (js ''Pen''), body_price = JNum (Fin (- (1 / 100)))\<rparr> seed =
       (seed, Inr \<lparr>status = 400, headers = [],
                  body = JsonError ''bad_request'' [Lit ''price must be a non-negative number'']\<rparr>)"
    using postItems_price_invalid [of
        "\<lparr>body_name = JStr (js ''Pen''), body_price = JNum (Fin (- (1 / 100)))\<rparr>"
        "js ''Pen''" "Fin (- (1 / 100))" seed]
    by (simp add: trim_Pen_plain js_nonempty badRequest_def)
  have 3: "postItems \<lparr>body_name = JStr (js ''Pen''), body_price = JStr (js ''abc'')\<rparr> seed =
       (seed, Inr \<lparr>status = 400, headers = [],
                  body = JsonError ''bad_request'' [Lit ''price must be a non-negative number'']\<rparr>)"
    using postItems_price_invalid [of
        "\<lparr>body_name = JStr (js ''Pen''), body_price = JStr (js ''abc'')\<rparr>"
        "js ''Pen''" NaN seed]
    by (simp add: trim_Pen_plain js_nonempty badRequest_def StringToNumber_abc)
  have 4: "postItems \<lparr>body_name = JStr (js ''   ''), body_price = JNum (Fin 1)\<rparr> seed =
       (seed, Inr \<lparr>status = 400, headers = [],
                  body = JsonError ''bad_request'' [Lit ''name is required (string)'']\<rparr>)"
    using postItems_name_invalid [of "\<lparr>body_name = JStr (js ''   ''), body_price = JNum (Fin 1)\<rparr>" seed]
    by (simp add: trim_blanks badRequest_def)
  have 5: "postItems \<lparr>body_name = JNum (Fin 7), body_price = JNum (Fin 1)\<rparr> seed =
       (seed, Inr \<lparr>status = 400, headers = [],
                  body = JsonError ''bad_request'' [Lit ''name is required (string)'']\<rparr>)"
    using postItems_name_invalid [of "\<lparr>body_name = JNum (Fin 7), body_price = JNum (Fin 1)\<rparr>" seed]
    by (simp add: badRequest_def)
  from 1 2 3 4 5 show ?thesis by blast
qed

subsection \<open>Replace\<close>

lemma putItem_not_found:
  "findItem s (StringToNumber p) = None \<Longrightarrow>
     putItem p b s = (s, Inr (notFound (StringToNumber p)))"
  by (simp add: putItem_def)

lemma putItem_name_invalid:
  "findItem s (StringToNumber p) = Some e \<Longrightarrow>
   (\<And>n. body_name b = JStr n \<Longrightarrow> trim n = []) \<Longrightarrow>
     putItem p b s = (s, Inr (badRequest ''name is required (string)''))"
  by (simp add: putItem_def split: jsvalue.splits)

lemma putItem_price_throws:
  "findItem s (StringToNumber p) = Some e \<Longrightarrow>
   body_name b = JStr n \<Longrightarrow> trim n \<noteq> [] \<Longrightarrow> Number (body_price b) = Inl t \<Longrightarrow>
     putItem p b s = (s, Inl t)"
  by (simp add: putItem_def)

lemma putItem_price_invalid:
  "findItem s (StringToNumber p) = Some e \<Longrightarrow>
   body_name b = JStr n \<Longrightarrow> trim n \<noteq> [] \<Longrightarrow> Number (body_price b) = Inr x \<Longrightarrow>
   \<not> isFinite x \<or> lessZero x \<Longrightarrow>
     putItem p b s = (s, Inr (badRequest ''price must be a non-negative number''))"
  by (auto simp add: putItem_def)

lemma putItem_replaced:
  "findItem s (StringToNumber p) = Some e \<Longrightarrow>
   body_name b = JStr n \<Longrightarrow> trim n \<noteq> [] \<Longrightarrow> Number (body_price b) = Inr x \<Longrightarrow>
   isFinite x \<Longrightarrow> \<not> lessZero x \<Longrightarrow>
     putItem p b s =
       (assignExisting (StringToNumber p) (\<lambda>y. y\<lparr>item_name := trim n, item_price := x\<rparr>) s,
        Inr (ok ''items-put'' (e\<lparr>item_name := trim n, item_price := x\<rparr>)))"
  by (simp add: putItem_def)

subsection \<open>PartialUpdate\<close>

lemma patchItem_not_found:
  "findItem s (StringToNumber p) = None \<Longrightarrow>
     patchItem p b s = (s, Inr (notFound (StringToNumber p)))"
  by (simp add: patchItem_def)

lemma patchItem_name_invalid:
  "findItem s (StringToNumber p) = Some e \<Longrightarrow> body_name b \<noteq> JUndefined \<Longrightarrow>
   (\<And>n. body_name b = JStr n \<Longrightarrow> trim n = []) \<Longrightarrow>
     patchItem p b s = (s, Inr (badRequest ''name must be a non-empty string''))"
  by (cases "body_name b") (simp_all add: patchItem_def patchName_def)

lemma namePatched_id: "item_id (namePatched v y) = item_id y"
  by (simp add: namePatched_def split: jsvalue.splits)

lemma namePatched_JUndefined: "namePatched JUndefined = (\<lambda>y. y)"
  by (rule ext) (simp add: namePatched_def)

lemma namePatched_JStr: "namePatched (JStr n) = (\<lambda>y. y\<lparr>item_name := trim n\<rparr>)"
  by (rule ext) (simp add: namePatched_def)

lemma patchName_continues:
  "v = JUndefined \<or> (\<exists>n. v = JStr n \<and> trim n \<noteq> []) \<Longrightarrow>
     patchName i v (s, e) = Inr (assignExisting i (namePatched v) s, namePatched v e)"
  by (auto simp add: patchName_def namePatched_JUndefined namePatched_JStr)

lemma patchItem_price_absent:
  "findItem s (StringToNumber p) = Some e \<Longrightarrow>
   body_name b = JUndefined \<or> (\<exists>n. body_name b = JStr n \<and> trim n \<noteq> []) \<Longrightarrow>
   body_price b = JUndefined \<Longrightarrow>
     patchItem p b s =
       (assignExisting (StringToNumber p) (namePatched (body_name b)) s,
        Inr (ok ''items-patch'' (namePatched (body_name b) e)))"
  by (simp add: patchItem_def patchName_continues patchPrice_def)

lemma patchItem_price_throws:
  "findItem s (StringToNumber p) = Some e \<Longrightarrow>
   body_name b = JUndefined \<or> (\<exists>n. body_name b = JStr n \<and> trim n \<noteq> []) \<Longrightarrow>
   body_price b \<noteq> JUndefined \<Longrightarrow> Number (body_price b) = Inl t \<Longrightarrow>
     patchItem p b s = (assignExisting (StringToNumber p) (namePatched (body_name b)) s, Inl t)"
  by (simp add: patchItem_def patchName_continues patchPrice_def)

lemma patchItem_price_invalid:
  "findItem s (StringToNumber p) = Some e \<Longrightarrow>
   body_name b = JUndefined \<or> (\<exists>n. body_name b = JStr n \<and> trim n \<noteq> []) \<Longrightarrow>
   body_price b \<noteq> JUndefined \<Longrightarrow> Number (body_price b) = Inr x \<Longrightarrow>
   \<not> isFinite x \<or> lessZero x \<Longrightarrow>
     patchItem p b s =
       (assignExisting (StringToNumber p) (namePatched (body_name b)) s,
        Inr (badRequest ''price must be a non-negative number''))"
  by (auto simp add: patchItem_def patchName_continues patchPrice_def)

lemma patchItem_price_applied:
  "findItem s (StringToNumber p) = Some e \<Longrightarrow>
   body_name b = JUndefined \<or> (\<exists>n. body_name b = JStr n \<and> trim n \<noteq> []) \<Longrightarrow>
   body_price b \<noteq> JUndefined \<Longrightarrow> Number (body_price b) = Inr x \<Longrightarrow>
   isFinite x \<Longrightarrow> \<not> lessZero x \<Longrightarrow>
     patchItem p b s =
       (assignExisting (StringToNumber p)
          (\<lambda>y. (namePatched (body_name b) y)\<lparr>item_price := x\<rparr>) s,
        Inr (ok ''items-patch'' ((namePatched (body_name b) e)\<lparr>item_price := x\<rparr>)))"
  by (simp add: patchItem_def patchName_continues patchPrice_def assignExisting_twice
      namePatched_id)

lemma patch_not_atomic:
  assumes "findItem s (StringToNumber p) = Some e"
    and "body_name b = JStr n" and "trim n \<noteq> []"
    and "body_price b \<noteq> JUndefined" and "Number (body_price b) = Inr x"
    and "\<not> isFinite x \<or> lessZero x"
  shows "patchItem p b s =
           (assignExisting (StringToNumber p) (\<lambda>y. y\<lparr>item_name := trim n\<rparr>) s,
            Inr (badRequest ''price must be a non-negative number''))
         \<and> findItem (assignExisting (StringToNumber p) (\<lambda>y. y\<lparr>item_name := trim n\<rparr>) s)
             (StringToNumber p) = Some (e\<lparr>item_name := trim n\<rparr>)"
proof -
  have nm: "body_name b = JUndefined \<or> (\<exists>m. body_name b = JStr m \<and> trim m \<noteq> [])"
    using assms(2,3) by blast
  from patchItem_price_invalid [OF assms(1) nm assms(4,5,6)] assms(2)
  have "patchItem p b s =
           (assignExisting (StringToNumber p) (\<lambda>y. y\<lparr>item_name := trim n\<rparr>) s,
            Inr (badRequest ''price must be a non-negative number''))"
    by (simp add: namePatched_JStr)
  moreover have "findItem (assignExisting (StringToNumber p) (\<lambda>y. y\<lparr>item_name := trim n\<rparr>) s)
             (StringToNumber p) = Some (e\<lparr>item_name := trim n\<rparr>)"
    using assms(1) by (simp add: findItem_assignExisting)
  ultimately show ?thesis by blast
qed

subsection \<open>Get and Delete\<close>

lemma getItem_not_found:
  "findItem s (StringToNumber p) = None \<Longrightarrow> getItem p s = notFound (StringToNumber p)"
  by (simp add: getItem_def)


lemma deleteItem_not_found:
  "findItem s (StringToNumber p) = None \<Longrightarrow>
     deleteItem p s = (s, Inr (notFound (StringToNumber p)))"
  by (simp add: deleteItem_def findItem_def findIndex_None [symmetric])

lemma deleteItem_removed:
  "findItem s (StringToNumber p) = Some x \<Longrightarrow>
     deleteItem p s =
       (s\<lparr>items := remove1 x (items s)\<rparr>,
        Inr \<lparr>status = 204, headers = [(''X-Demo'', [Lit ''items-delete''])], body = NoBody\<rparr>)"
proof -
  assume f: "findItem s (StringToNumber p) = Some x"
  then obtain k where k: "findIndex (\<lambda>y. strictEq (item_id y) (StringToNumber p)) (items s) = Some k"
    "items s ! k = x"
    unfolding findItem_def by (blast dest: find_Some_findIndex)
  then show ?thesis
    by (simp add: deleteItem_def remove_at_remove1 [OF k(1)])
qed

subsection \<open>The validation rule\<close>

lemma status_simps [simp]:
  "status (notFound i) = 404"
  "status (badRequest m) = 400"
  "status (ok d x) = 200"
  "status (getItems s) = 200"
  by (simp_all add: notFound_def badRequest_def ok_def getItems_def)

lemma status_getRoot [simp]: "status (getRoot a) \<noteq> 201"
  by (simp add: getRoot_def)

lemma status_getItem [simp]: "status (getItem p s) \<noteq> 201"
  by (simp add: getItem_def Let_def split: option.splits)

lemma status_stateless [simp]:
  "status getPage = 200" "status echo = 200" "status optionsItems = 204"
  "status routeNotFound = 404"
  by (simp_all add: getPage_def echo_def optionsItems_def routeNotFound_def)

lemma body_withoutBody [simp]: "body (withoutBody r) = NoBody"
  by (simp add: withoutBody_def)

lemma acceptedName_Some:
  "acceptedName v = Some m \<longleftrightarrow> (\<exists>n. v = JStr n \<and> trim n \<noteq> [] \<and> m = trim n)"
  by (auto simp add: acceptedName_def split: jsvalue.splits)

lemma acceptedName_None:
  "acceptedName v = None \<longleftrightarrow> (\<forall>n. v = JStr n \<longrightarrow> trim n = [])"
  by (auto simp add: acceptedName_def split: jsvalue.splits)

lemma acceptedPrice_Some:
  "acceptedPrice v = Some x \<longleftrightarrow> Number v = Inr x \<and> isFinite x \<and> \<not> lessZero x"
  by (auto simp add: acceptedPrice_def split: sum.splits)

lemma acceptedPrice_None:
  "acceptedPrice v = None \<longleftrightarrow>
     (\<exists>e. Number v = Inl e) \<or> (\<exists>x. Number v = Inr x \<and> (\<not> isFinite x \<or> lessZero x))"
  by (auto simp add: acceptedPrice_def split: sum.splits)

lemma acceptedPrice_Fin:
  "acceptedPrice v = Some x \<longleftrightarrow> (\<exists>q. Number v = Inr (Fin q) \<and> 0 \<le> q \<and> x = Fin q)"
  by (cases x) (auto simp add: acceptedPrice_Some)

lemma rejectedPrice_iff:
  "rejectedPrice v \<longleftrightarrow> (\<exists>x. Number v = Inr x \<and> (\<not> isFinite x \<or> lessZero x))"
  by (auto simp add: rejectedPrice_def split: sum.splits jsnum.splits)

lemma postItems_accepts:
  "(\<exists>s' r. postItems b s = (s', Inr r) \<and> status r = 201) \<longleftrightarrow>
     acceptedName (body_name b) \<noteq> None \<and> acceptedPrice (body_price b) \<noteq> None"
proof (cases "acceptedName (body_name b)")
  case None
  then have "postItems b s = (s, Inr (badRequest ''name is required (string)''))"
    by (intro postItems_name_invalid) (simp add: acceptedName_None)
  with None show ?thesis by simp
next
  case (Some m)
  then obtain n where n: "body_name b = JStr n" "trim n \<noteq> []"
    by (auto simp add: acceptedName_Some)
  show ?thesis
  proof (cases "Number (body_price b)")
    case (Inl e)
    with n Some show ?thesis
      by (simp add: postItems_price_throws acceptedPrice_def)
  next
    case (Inr x)
    show ?thesis
    proof (cases "isFinite x \<and> \<not> lessZero x")
      case True
      with n Inr Some show ?thesis
        by (simp add: postItems_created acceptedPrice_def)
    next
      case False
      then have "\<not> isFinite x \<or> lessZero x" by blast
      from postItems_price_invalid [OF n Inr this] False Inr Some show ?thesis
        by (simp add: acceptedPrice_def)
    qed
  qed
qed

lemma postItems_accepted:
  assumes "trim n \<noteq> []" and "acceptedPrice v = Some x"
  shows "postItems \<lparr>body_name = JStr n, body_price = v\<rparr> s =
       (s\<lparr>items := items s @ [\<lparr>item_id = nextId s, item_name = trim n, item_price = x\<rparr>],
          nextId := increment (nextId s)\<rparr>,
        Inr \<lparr>status = 201,
             headers = [(''X-Demo'', [Lit ''items-create'']),
                        (''Location'', [Lit ''/items/'', Val (Fin (of_nat (nextId s)))])],
             body = JsonItem \<lparr>item_id = nextId s, item_name = trim n, item_price = x\<rparr>\<rparr>)"
  using assms by (simp add: postItems_created [of _ n] acceptedPrice_Some)

lemma putItem_accepted:
  assumes "trim n \<noteq> []" and "findItem s (StringToNumber p) = Some e"
    and "acceptedPrice v = Some x"
  shows "putItem p \<lparr>body_name = JStr n, body_price = v\<rparr> s =
       (assignExisting (StringToNumber p) (\<lambda>y. y\<lparr>item_name := trim n, item_price := x\<rparr>) s,
        Inr \<lparr>status = 200, headers = [(''X-Demo'', [Lit ''items-put''])],
             body = JsonItem (e\<lparr>item_name := trim n, item_price := x\<rparr>)\<rparr>)"
  using assms by (simp add: putItem_replaced [of _ _ e _ n] acceptedPrice_Some ok_def)

lemma patchItem_accepted:
  assumes "findItem s (StringToNumber p) = Some e" and "v \<noteq> JUndefined"
    and "acceptedPrice v = Some x"
  shows "patchItem p \<lparr>body_name = JUndefined, body_price = v\<rparr> s =
       (assignExisting (StringToNumber p) (\<lambda>y. y\<lparr>item_price := x\<rparr>) s,
        Inr \<lparr>status = 200, headers = [(''X-Demo'', [Lit ''items-patch''])],
             body = JsonItem (e\<lparr>item_price := x\<rparr>)\<rparr>)"
  using assms
  by (simp add: patchItem_price_applied [of _ _ e] acceptedPrice_Some ok_def
      namePatched_JUndefined)

lemma postItems_400_iff:
  assumes "trim n \<noteq> []"
  shows "(\<exists>r. snd (postItems \<lparr>body_name = JStr n, body_price = v\<rparr> s) = Inr r \<and> status r = 400)
         \<longleftrightarrow> rejectedPrice v"
proof (cases "Number v")
  case (Inl t)
  with assms show ?thesis
    by (simp add: postItems_price_throws [of _ n] rejectedPrice_def)
next
  case (Inr x)
  show ?thesis
  proof (cases "isFinite x \<and> \<not> lessZero x")
    case True
    with assms Inr show ?thesis
      by (simp add: postItems_created [of _ n] rejectedPrice_iff)
  next
    case False
    then have "\<not> isFinite x \<or> lessZero x" by blast
    with assms Inr show ?thesis
      by (simp add: postItems_price_invalid [of _ n] rejectedPrice_iff)
  qed
qed

lemma putItem_400_iff:
  assumes "trim n \<noteq> []" and "findItem s (StringToNumber p) = Some e"
  shows "(\<exists>r. snd (putItem p \<lparr>body_name = JStr n, body_price = v\<rparr> s) = Inr r \<and> status r = 400)
         \<longleftrightarrow> rejectedPrice v"
proof (cases "Number v")
  case (Inl t)
  with assms show ?thesis
    by (simp add: putItem_price_throws [of _ _ e _ n] rejectedPrice_def)
next
  case (Inr x)
  show ?thesis
  proof (cases "isFinite x \<and> \<not> lessZero x")
    case True
    with assms Inr show ?thesis
      by (simp add: putItem_replaced [of _ _ e _ n] rejectedPrice_iff)
  next
    case False
    then have "\<not> isFinite x \<or> lessZero x" by blast
    with assms Inr show ?thesis
      by (simp add: putItem_price_invalid [of _ _ e _ n] rejectedPrice_iff)
  qed
qed

lemma patchItem_400_iff:
  assumes "findItem s (StringToNumber p) = Some e" and "v \<noteq> JUndefined"
  shows "(\<exists>r. snd (patchItem p \<lparr>body_name = JUndefined, body_price = v\<rparr> s) = Inr r
              \<and> status r = 400)
         \<longleftrightarrow> rejectedPrice v"
proof (cases "Number v")
  case (Inl t)
  with assms show ?thesis
    by (simp add: patchItem_price_throws [of _ _ e] rejectedPrice_def)
next
  case (Inr x)
  show ?thesis
  proof (cases "isFinite x \<and> \<not> lessZero x")
    case True
    with assms Inr show ?thesis
      by (simp add: patchItem_price_applied [of _ _ e] rejectedPrice_iff)
  next
    case False
    then have "\<not> isFinite x \<or> lessZero x" by blast
    with assms Inr show ?thesis
      by (simp add: patchItem_price_invalid [of _ _ e] rejectedPrice_iff)
  qed
qed

lemma patchItem_all_valid:
  assumes e: "findItem s (StringToNumber p) = Some e"
    and nm: "body_name b = JUndefined \<or> acceptedName (body_name b) \<noteq> None"
    and pr: "body_price b = JUndefined \<or> acceptedPrice (body_price b) \<noteq> None"
  shows "patchItem p b s =
           (assignExisting (StringToNumber p) (patched b) s, Inr (ok ''items-patch'' (patched b e)))"
proof -
  from nm have nm': "body_name b = JUndefined \<or> (\<exists>n. body_name b = JStr n \<and> trim n \<noteq> [])"
    by (auto simp add: acceptedName_Some)
  show ?thesis
  proof (cases "body_price b = JUndefined")
    case True
    have "patched b = namePatched (body_name b)"
      using True nm'
      by (intro ext) (auto simp add: patched_def namePatched_def acceptedName_def)
    with patchItem_price_absent [OF e nm' True] show ?thesis by simp
  next
    case False
    with pr obtain x where x: "Number (body_price b) = Inr x" "isFinite x" "\<not> lessZero x"
      by (auto simp add: acceptedPrice_Some)
    have "patched b = (\<lambda>y. (namePatched (body_name b) y)\<lparr>item_price := x\<rparr>)"
      using False nm' x
      by (intro ext) (auto simp add: patched_def namePatched_def acceptedName_def acceptedPrice_def)
    with patchItem_price_applied [OF e nm' False x] show ?thesis by simp
  qed
qed

lemma patchItem_some_invalid:
  assumes e: "findItem s (StringToNumber p) = Some e"
    and bad: "\<not> ((body_name b = JUndefined \<or> acceptedName (body_name b) \<noteq> None)
               \<and> (body_price b = JUndefined \<or> acceptedPrice (body_price b) \<noteq> None))"
    and r: "patchItem p b s = (s', Inr r)"
  shows "status r = 400"
proof (cases "body_name b = JUndefined \<or> acceptedName (body_name b) \<noteq> None")
  case False
  then have "body_name b \<noteq> JUndefined" "\<And>n. body_name b = JStr n \<Longrightarrow> trim n = []"
    by (auto simp add: acceptedName_None)
  from patchItem_name_invalid [OF e this] r show ?thesis by auto
next
  case True
  then have nm': "body_name b = JUndefined \<or> (\<exists>n. body_name b = JStr n \<and> trim n \<noteq> [])"
    by (auto simp add: acceptedName_Some)
  from True bad have pr: "body_price b \<noteq> JUndefined" "acceptedPrice (body_price b) = None"
    by auto
  show ?thesis
  proof (cases "Number (body_price b)")
    case (Inl t)
    from patchItem_price_throws [OF e nm' pr(1) Inl] r show ?thesis by simp
  next
    case (Inr x)
    with pr(2) have "\<not> isFinite x \<or> lessZero x" by (auto simp add: acceptedPrice_None)
    from patchItem_price_invalid [OF e nm' pr(1) Inr this] r show ?thesis by auto
  qed
qed

lemma putItem_200:
  assumes "putItem p b s = (s', Inr r)" and "status r = 200"
  shows "\<exists>e n x. findItem s (StringToNumber p) = Some e
           \<and> s' = assignExisting (StringToNumber p) (\<lambda>y. y\<lparr>item_name := n, item_price := x\<rparr>) s
           \<and> r = ok ''items-put'' (e\<lparr>item_name := n, item_price := x\<rparr>)"
  using assms
  by (auto simp add: putItem_def Let_def split: option.splits jsvalue.splits sum.splits if_splits)

lemma patchItem_200:
  assumes "patchItem p b s = (s', Inr r)" and "status r = 200"
  shows "\<exists>e. findItem s (StringToNumber p) = Some e
           \<and> s' = assignExisting (StringToNumber p) (patched b) s
           \<and> r = ok ''items-patch'' (patched b e)"
proof (cases "findItem s (StringToNumber p)")
  case None
  with assms show ?thesis by (auto simp add: patchItem_not_found)
next
  case (Some e)
  show ?thesis
  proof (cases "(body_name b = JUndefined \<or> acceptedName (body_name b) \<noteq> None)
               \<and> (body_price b = JUndefined \<or> acceptedPrice (body_price b) \<noteq> None)")
    case True
    with patchItem_all_valid [OF Some, of b] assms Some show ?thesis by simp
  next
    case False
    from patchItem_some_invalid [OF Some False assms(1)] assms(2) show ?thesis by simp
  qed
qed

text \<open>
  PartialUpdate of an existing item, in every case: the store it leaves and the answer.
\<close>

lemma stored_id: "item_id (stored b y) = item_id y"
  by (simp add: stored_def)

lemma stored_refused: "nameRefused b \<Longrightarrow> stored b = (\<lambda>y. y)"
  by (rule ext) (simp add: stored_def nameRefused_def)

lemma stored_name_only:
  assumes "\<not> nameRefused b" and "acceptedPrice (body_price b) = None"
  shows "stored b = namePatched (body_name b)"
proof (rule ext)
  fix y
  from assms show "stored b y = namePatched (body_name b) y"
    by (cases "body_name b")
      (auto simp add: stored_def nameRefused_def namePatched_def acceptedName_def)
qed

lemma stored_both:
  assumes "\<not> nameRefused b" and "body_price b \<noteq> JUndefined"
    and "acceptedPrice (body_price b) = Some x"
  shows "stored b = (\<lambda>y. (namePatched (body_name b) y)\<lparr>item_price := x\<rparr>)"
proof (rule ext)
  fix y
  from assms show "stored b y = (namePatched (body_name b) y)\<lparr>item_price := x\<rparr>"
    by (cases "body_name b")
      (auto simp add: stored_def nameRefused_def namePatched_def acceptedName_def)
qed

lemma acceptedPrice_JUndefined: "acceptedPrice JUndefined = None"
  by (simp add: acceptedPrice_def)

lemma patchItem_total:
  assumes e: "findItem s (StringToNumber p) = Some e"
  shows "patchItem p b s =
           (assignExisting (StringToNumber p) (stored b) s,
            if nameRefused b then Inr (badRequest ''name must be a non-empty string'')
            else if body_price b = JUndefined \<or> acceptedPrice (body_price b) \<noteq> None
              then Inr (ok ''items-patch'' (stored b e))
            else (case Number (body_price b) of
                    Inl t \<Rightarrow> Inl t
                  | Inr x \<Rightarrow> Inr (badRequest ''price must be a non-negative number'')))"
proof (cases "nameRefused b")
  case True
  then have "body_name b \<noteq> JUndefined" "\<And>n. body_name b = JStr n \<Longrightarrow> trim n = []"
    by (auto simp add: nameRefused_def acceptedName_None)
  from patchItem_name_invalid [OF e this] True show ?thesis
    by (simp add: stored_refused)
next
  case False
  then have nm: "body_name b = JUndefined \<or> (\<exists>n. body_name b = JStr n \<and> trim n \<noteq> [])"
    by (auto simp add: nameRefused_def acceptedName_None)
  show ?thesis
  proof (cases "body_price b = JUndefined")
    case True
    with False have "stored b = namePatched (body_name b)"
      by (simp add: stored_name_only acceptedPrice_JUndefined)
    with patchItem_price_absent [OF e nm True] False True show ?thesis by simp
  next
    case present: False
    show ?thesis
    proof (cases "Number (body_price b)")
      case (Inl t)
      then have none: "acceptedPrice (body_price b) = None"
        by (simp add: acceptedPrice_def)
      with False have "stored b = namePatched (body_name b)"
        by (rule stored_name_only)
      with patchItem_price_throws [OF e nm present Inl] False present none Inl show ?thesis
        by simp
    next
      case (Inr x)
      show ?thesis
      proof (cases "isFinite x \<and> \<not> lessZero x")
        case True
        with Inr have some: "acceptedPrice (body_price b) = Some x"
          by (simp add: acceptedPrice_Some)
        with False present
        have "stored b = (\<lambda>y. (namePatched (body_name b) y)\<lparr>item_price := x\<rparr>)"
          by (rule stored_both)
        with patchItem_price_applied [OF e nm present Inr] True False present some
        show ?thesis by simp
      next
        case bad: False
        then have bad': "\<not> isFinite x \<or> lessZero x" by blast
        with Inr have none: "acceptedPrice (body_price b) = None"
          by (auto simp add: acceptedPrice_None)
        with False have "stored b = namePatched (body_name b)"
          by (rule stored_name_only)
        with patchItem_price_invalid [OF e nm present Inr bad'] False present none Inr
        show ?thesis by simp
      qed
    qed
  qed
qed

section \<open>The invariant of the ids\<close>

lemma postItems_effect:
  assumes "postItems b s = (s', out)"
  shows "(s' = s \<and> createdId out = None)
         \<or> (\<exists>x. s' = s\<lparr>items := items s @ [x], nextId := increment (nextId s)\<rparr>
                \<and> item_id x = nextId s \<and> createdId out = Some (nextId s))"
  using assms
  by (auto simp add: postItems_def Let_def split: jsvalue.splits sum.splits if_splits)

lemma putItem_effect:
  assumes "putItem p b s = (s', out)"
  shows "map item_id (items s') = map item_id (items s) \<and> nextId s' = nextId s
         \<and> createdId out = None"
  using assms
  by (auto simp add: putItem_def Let_def assignExisting_ids assignExisting_nextId
      split: option.splits jsvalue.splits sum.splits if_splits)

lemma patchItem_effect:
  assumes "patchItem p b s = (s', out)"
  shows "map item_id (items s') = map item_id (items s) \<and> nextId s' = nextId s
         \<and> createdId out = None"
proof (cases "findItem s (StringToNumber p)")
  case None
  with assms show ?thesis by (auto simp add: patchItem_not_found)
next
  case (Some e)
  show ?thesis
  proof (cases "patchName (StringToNumber p) (body_name b) (s, e)")
    case (Inl d)
    then have "d = (s, Inr (badRequest ''name must be a non-empty string''))"
      by (auto simp add: patchName_def split: jsvalue.splits if_splits)
    with assms Some Inl show ?thesis by (auto simp add: patchItem_def)
  next
    case (Inr c)
    obtain s1 e1 where c: "c = (s1, e1)" by (cases c)
    from Inr c have s1: "map item_id (items s1) = map item_id (items s)" "nextId s1 = nextId s"
      by (auto simp add: patchName_def assignExisting_ids assignExisting_nextId
          split: jsvalue.splits if_splits)
    from assms Some Inr c have "patchPrice (StringToNumber p) (body_price b) (s1, e1) = (s', out)"
      by (simp add: patchItem_def)
    then have "map item_id (items s') = map item_id (items s1) \<and> nextId s' = nextId s1
         \<and> createdId out = None"
      by (auto simp add: patchPrice_def assignExisting_ids assignExisting_nextId
          split: sum.splits if_splits)
    with s1 show ?thesis by simp
  qed
qed

lemma deleteItem_effect:
  assumes "deleteItem p s = (s', out)"
  shows "(\<exists>k. items s' = take k (items s) @ drop (Suc k) (items s) \<or> items s' = items s)
         \<and> nextId s' = nextId s \<and> createdId out = None"
  using assms
  by (auto simp add: deleteItem_def Let_def split: option.splits)

lemma handle_wellFormed:
  assumes "wellFormed (s, issued)" and "handle r s = (s', out)"
  shows "wellFormed (s', issue issued out)"
proof (cases r)
  case (GET_root a)
  with assms show ?thesis by (auto simp add: issue_def)
next
  case (HEAD_root a)
  with assms show ?thesis by (auto simp add: issue_def)
next
  case HEAD_page
  with assms show ?thesis by (auto simp add: issue_def)
next
  case HEAD_echo
  with assms show ?thesis by (auto simp add: issue_def)
next
  case HEAD_items
  with assms show ?thesis by (auto simp add: issue_def)
next
  case GET_items
  with assms show ?thesis by (auto simp add: issue_def)
next
  case (GET_item p)
  with assms show ?thesis by (auto simp add: issue_def)
next
  case GET_page
  with assms show ?thesis by (auto simp add: issue_def)
next
  case ANY_echo
  with assms show ?thesis by (auto simp add: issue_def)
next
  case (HEAD_item p)
  with assms show ?thesis by (auto simp add: issue_def)
next
  case OPTIONS_items
  with assms show ?thesis by (auto simp add: issue_def)
next
  case Unmatched
  with assms show ?thesis by (auto simp add: issue_def)
next
  case (POST_items b)
  with assms(2) have "postItems b s = (s', out)" by simp
  from postItems_effect [OF this] show ?thesis
  proof
    assume "s' = s \<and> createdId out = None"
    with assms(1) show ?thesis by (simp add: issue_def)
  next
    assume "\<exists>x. s' = s\<lparr>items := items s @ [x], nextId := increment (nextId s)\<rparr>
                \<and> item_id x = nextId s \<and> createdId out = Some (nextId s)"
    then obtain x where x: "s' = s\<lparr>items := items s @ [x], nextId := increment (nextId s)\<rparr>"
      "item_id x = nextId s" "createdId out = Some (nextId s)" by blast
    from assms(1) have le: "nextId s \<le> idLimit" by (simp add: wellFormed_def)
    from increment_le [OF le] x(1) have le': "nextId s' \<le> idLimit" by simp
    have "distinct (map item_id (items s'))
          \<and> set (map item_id (items s')) \<subseteq> set (issued @ [nextId s])
          \<and> sorted_wrt (<) (issued @ [nextId s])
          \<and> (\<forall>n \<in> set (issued @ [nextId s]). n < nextId s')"
      if new: "idLimit \<notin> set (issued @ [nextId s])"
    proof -
      from new have old: "idLimit \<notin> set issued" and "nextId s \<noteq> idLimit" by auto
      with le have "nextId s < idLimit" by simp
      from increment_exact [OF this] x(1) have n': "nextId s' = nextId s + 1" by simp
      from assms(1) old have wf: "distinct (map item_id (items s))"
        "set (map item_id (items s)) \<subseteq> set issued" "sorted_wrt (<) issued"
        "\<forall>n \<in> set issued. n < nextId s"
        by (simp_all add: wellFormed_def)
      from wf(2,4) have fresh: "nextId s \<notin> set (map item_id (items s))" by auto
      have "distinct (map item_id (items s'))" using wf(1) fresh x by simp
      moreover have "set (map item_id (items s')) \<subseteq> set (issued @ [nextId s])"
        using wf(2) x by auto
      moreover have "sorted_wrt (<) (issued @ [nextId s])"
        using wf(3,4) by (simp add: sorted_wrt_append)
      moreover have "\<forall>n \<in> set (issued @ [nextId s]). n < nextId s'"
        using wf(4) n' by auto
      ultimately show ?thesis by blast
    qed
    with le' x(3) show ?thesis by (simp add: wellFormed_def issue_def)
  qed
next
  case (PUT_item p b)
  with assms(2) have "putItem p b s = (s', out)" by simp
  from putItem_effect [OF this] assms(1) show ?thesis
    by (simp add: wellFormed_def issue_def del: set_map)
next
  case (PATCH_item p b)
  with assms(2) have "patchItem p b s = (s', out)" by simp
  from patchItem_effect [OF this] assms(1) show ?thesis
    by (simp add: wellFormed_def issue_def del: set_map)
next
  case (DELETE_item p)
  with assms(2) have d: "deleteItem p s = (s', out)" by simp
  from deleteItem_effect [OF d] obtain k where
    k: "items s' = take k (items s) @ drop (Suc k) (items s) \<or> items s' = items s"
    and n: "nextId s' = nextId s" "createdId out = None" by blast
  from assms(1) have le: "nextId s \<le> idLimit" by (simp add: wellFormed_def)
  have "distinct (map item_id (items s')) \<and> set (map item_id (items s')) \<subseteq> set issued
        \<and> sorted_wrt (<) issued \<and> (\<forall>n \<in> set issued. n < nextId s)"
    if old: "idLimit \<notin> set issued"
  proof -
    from assms(1) old have wf: "distinct (map item_id (items s))"
      "set (map item_id (items s)) \<subseteq> set issued" "sorted_wrt (<) issued"
      "\<forall>n \<in> set issued. n < nextId s"
      by (simp_all add: wellFormed_def)
    from k have "distinct (map item_id (items s')) \<and> set (map item_id (items s')) \<subseteq> set issued"
    proof
      assume e: "items s' = take k (items s) @ drop (Suc k) (items s)"
      let ?ids = "map item_id (items s)"
      have m: "map item_id (items s') = take k ?ids @ drop (Suc k) ?ids"
        by (simp add: e take_map drop_map)
      have "distinct (take k ?ids @ drop (Suc k) ?ids)"
        using wf(1) by (rule distinct_remove_at)
      moreover have "set (take k ?ids @ drop (Suc k) ?ids) \<subseteq> set ?ids"
        using set_take_subset [of k ?ids] set_drop_subset [of "Suc k" ?ids] by simp
      ultimately show ?thesis using wf(2) unfolding m by blast
    next
      assume "items s' = items s"
      with wf show ?thesis by simp
    qed
    with wf show ?thesis by simp
  qed
  with le n show ?thesis by (simp add: wellFormed_def issue_def)
qed

lemma serve_wellFormed: "wellFormed c \<Longrightarrow> wellFormed (serve rs c)"
proof (induction rs arbitrary: c)
  case Nil
  then show ?case by simp
next
  case (Cons r rs)
  obtain s issued where c: "c = (s, issued)" by (cases c)
  obtain s' out where h: "handle r s = (s', out)" by (cases "handle r s")
  from Cons.prems c h have "wellFormed (s', issue issued out)"
    by (simp add: handle_wellFormed)
  from Cons.IH [OF this] c h show ?case by (simp add: issue_def)
qed

lemma wellFormed_start: "wellFormed start"
  by (simp add: wellFormed_def start_def seed_def idLimit_def)

lemma reachable_wellFormed: "serve rs start = (s, issued) \<Longrightarrow> wellFormed (s, issued)"
  using serve_wellFormed [OF wellFormed_start, of rs] by simp

text \<open>
  In every store reached from the seed store before the id \<open>2\<^sup>5\<^sup>3\<close> is issued, the ids are
  distinct and no item has the id that the counter issues next.
\<close>

lemma reachable_ids:
  assumes "serve rs start = (s, issued)" and "idLimit \<notin> set issued"
  shows "distinct (map item_id (items s))" and "\<forall>y \<in> set (items s). item_id y \<noteq> nextId s"
proof -
  from reachable_wellFormed [OF assms(1)] assms(2)
  have wf: "distinct (map item_id (items s))"
    "set (map item_id (items s)) \<subseteq> set issued" "\<forall>n \<in> set issued. n < nextId s"
    by (simp_all add: wellFormed_def)
  from wf(1) show "distinct (map item_id (items s))" .
  from wf(2,3) show "\<forall>y \<in> set (items s). item_id y \<noteq> nextId s" by fastforce
qed

section \<open>A client that creates and deletes\<close>

lemma serve_append: "serve (rs @ rs') c = serve rs' (serve rs c)"
proof (induction rs arbitrary: c)
  case Nil
  then show ?case by simp
next
  case (Cons r rs)
  obtain s issued where "c = (s, issued)" by (cases c)
  with Cons.IH show ?case by (simp split: prod.splits)
qed

lemma create_delete:
  assumes "body_name b = JStr nm" and "trim nm \<noteq> []"
    and "Number (body_price b) = Inr x" and "isFinite x" and "\<not> lessZero x"
    and "\<forall>y \<in> set its. item_id y < n" and "n < idLimit"
  shows "serve [POST_items b, DELETE_item (decimal n)] (\<lparr>items = its, nextId = n\<rparr>, issued)
         = (\<lparr>items = its, nextId = Suc n\<rparr>, issued @ [n])"
proof -
  let ?new = "\<lparr>item_id = n, item_name = trim nm, item_price = x\<rparr>"
  let ?s1 = "\<lparr>items = its @ [?new], nextId = Suc n\<rparr>"
  have post: "postItems b \<lparr>items = its, nextId = n\<rparr> =
      (?s1, Inr \<lparr>status = 201,
                 headers = [(''X-Demo'', [Lit ''items-create'']),
                            (''Location'', [Lit ''/items/'', Val (Fin (of_nat n))])],
                 body = JsonItem ?new\<rparr>)"
    using postItems_created [OF assms(1-5), of "\<lparr>items = its, nextId = n\<rparr>"]
      increment_exact [OF assms(7)]
    by simp
  have none: "find (\<lambda>y. item_id y = n) its = None"
    using assms(6) by (auto simp add: find_None_iff)
  have "findItem ?s1 (StringToNumber (decimal n)) = Some ?new"
    by (simp add: findItem_def StringToNumber_decimal [OF assms(7)] strictEq_iff
        find_append_None [OF none])
  from deleteItem_removed [OF this]
  have "deleteItem (decimal n) ?s1 =
      (?s1\<lparr>items := remove1 ?new (its @ [?new])\<rparr>,
       Inr \<lparr>status = 204, headers = [(''X-Demo'', [Lit ''items-delete''])], body = NoBody\<rparr>)"
    by simp
  moreover have "?new \<notin> set its"
    using assms(6) by auto
  then have "remove1 ?new (its @ [?new]) = its"
    by (simp add: remove1_append)
  ultimately have del: "deleteItem (decimal n) ?s1 =
      (\<lparr>items = its, nextId = Suc n\<rparr>,
       Inr \<lparr>status = 204, headers = [(''X-Demo'', [Lit ''items-delete''])], body = NoBody\<rparr>)"
    by simp
  show ?thesis
    by (simp add: post del issue_def)
qed

lemma serve_churn:
  assumes "body_name b = JStr nm" and "trim nm \<noteq> []"
    and "Number (body_price b) = Inr x" and "isFinite x" and "\<not> lessZero x"
    and "\<forall>y \<in> set its. item_id y < n" and "n + k \<le> idLimit"
  shows "serve (churn b n k) (\<lparr>items = its, nextId = n\<rparr>, issued)
         = (\<lparr>items = its, nextId = n + k\<rparr>, issued @ [n..<n + k])"
  using assms(6,7)
proof (induction k arbitrary: n issued)
  case 0
  then show ?case by simp
next
  case (Suc k)
  from Suc.prems(2) have n: "n < idLimit" by simp
  have "churn b n (Suc k) = [POST_items b, DELETE_item (decimal n)] @ churn b (Suc n) k"
    by simp
  then have "serve (churn b n (Suc k)) (\<lparr>items = its, nextId = n\<rparr>, issued)
      = serve (churn b (Suc n) k) (\<lparr>items = its, nextId = Suc n\<rparr>, issued @ [n])"
    by (simp only: serve_append create_delete [OF assms(1-5) Suc.prems(1) n])
  also have "\<dots> = (\<lparr>items = its, nextId = Suc n + k\<rparr>, (issued @ [n]) @ [Suc n..<Suc n + k])"
  proof (rule Suc.IH)
    from Suc.prems(1) show "\<forall>y \<in> set its. item_id y < Suc n" by auto
    from Suc.prems(2) show "Suc n + k \<le> idLimit" by simp
  qed
  also have "(issued @ [n]) @ [Suc n..<Suc n + k] = issued @ [n..<n + Suc k]"
    by (simp add: upt_conv_Cons)
  finally show ?case by simp
qed

section \<open>The claims\<close>

subsection \<open>Create\<close>

text \<open>
  C1. The claim answers every Create request with 400 or 201. The request
  \<^verbatim>\<open>POST /items {"name":"Pen","price":{"toString":1}}\<close> gets neither: the name is accepted,
  \<^verbatim>\<open>Number(price)\<close> throws a \<^verbatim>\<open>TypeError\<close>, the exception leaves the handler and the store is
  unchanged. (For every other kind of request the lemmas \<open>postItems_name_invalid\<close>,
  \<open>postItems_price_invalid\<close> and \<open>postItems_created\<close> give what the claim says.)
\<close>

theorem create_price_object_throws:
  "postItems \<lparr>body_name = JStr (js ''Pen''),
              body_price = JObj [(js ''toString'', JNum (Fin 1))]\<rparr> seed
   = (seed, Inl TypeError)"
  by (simp add: postItems_def trim_def js_simps isWhiteSpace_def)

theorem create_price_object_throws_witness:
  "snd (postItems \<lparr>body_name = JStr (js ''Pen''),
                   body_price = JObj [(js ''toString'', JNum (Fin 1))]\<rparr> seed)
   = Inl TypeError"
  using create_price_object_throws by simp

subsection \<open>Ids\<close>

text \<open>
  C2. After any sequence of requests served from the seed store in which the id \<open>2\<^sup>5\<^sup>3\<close> has
  not been issued, the ids in the collection are distinct, the ids issued so far (the seed
  ids, then the id of every 201 in order) are strictly increasing, and a Create that
  succeeds now returns an id greater than every id issued so far and different from every
  id in the collection. This covers the first \<open>2\<^sup>5\<^sup>3 - 2\<close> successful Creates. It does not go
  on: \<^verbatim>\<open>nextId++\<close> leaves a counter of \<open>2\<^sup>5\<^sup>3\<close> as it is. When a client has created an item
  and deleted it again \<open>2\<^sup>5\<^sup>3 - 3\<close> times and has then created one more, which got the id
  \<open>2\<^sup>5\<^sup>3\<close>, the next Create answers 201 with the id \<open>2\<^sup>5\<^sup>3\<close> once more, and the collection
  holds two items with that id.
\<close>

theorem ids_unique_and_increasing:
  assumes "serve rs start = (s, issued)" and "idLimit \<notin> set issued"
  shows "distinct (map item_id (items s))
         \<and> sorted_wrt (<) issued
         \<and> (\<forall>b s' out n. postItems b s = (s', out) \<and> createdId out = Some n \<longrightarrow>
               (\<forall>m \<in> set issued. m < n) \<and> n \<notin> set (map item_id (items s)))"
proof -
  from serve_wellFormed [OF wellFormed_start, of rs] assms(1) have "wellFormed (s, issued)"
    by simp
  with assms(2) have d: "distinct (map item_id (items s))" and so: "sorted_wrt (<) issued"
    and sub: "set (map item_id (items s)) \<subseteq> set issued"
    and lt: "\<forall>n \<in> set issued. n < nextId s"
    by (simp_all add: wellFormed_def)
  have "(\<forall>m \<in> set issued. m < n) \<and> n \<notin> set (map item_id (items s))"
    if "postItems b s = (s', out)" "createdId out = Some n" for b s' out n
  proof -
    from postItems_effect [OF that(1)] that(2) have "n = nextId s" by auto
    with lt sub show ?thesis by auto
  qed
  with d so show ?thesis by blast
qed

theorem ids_unique_and_increasing_witness:
  "serve [POST_items \<lparr>body_name = JStr (js ''Eraser''), body_price = JNum (Fin 1)\<rparr>,
          DELETE_item (js ''3''),
          POST_items \<lparr>body_name = JStr (js ''Marker''), body_price = JStr (js ''2.75'')\<rparr>] start
   = (\<lparr>items = [notebook, pen,
                 \<lparr>item_id = 4, item_name = js ''Marker'', item_price = Fin (11 / 4)\<rparr>],
       nextId = 5\<rparr>, [1, 2, 3, 4])
   \<and> idLimit \<notin> set [1, 2, 3, 4]
   \<and> distinct (map item_id [notebook, pen,
                 \<lparr>item_id = 4, item_name = js ''Marker'', item_price = Fin (11 / 4)\<rparr>])
   \<and> sorted_wrt (<) [1, 2, 3, 4 :: nat]"
proof -
  let ?eraser = "\<lparr>item_id = 3, item_name = js ''Eraser'', item_price = Fin 1\<rparr>"
  let ?s1 = "\<lparr>items = [notebook, pen, ?eraser], nextId = 4\<rparr>"
  let ?s2 = "\<lparr>items = [notebook, pen], nextId = 4\<rparr>"
  let ?marker = "\<lparr>item_id = 4, item_name = js ''Marker'', item_price = Fin (11 / 4)\<rparr>"
  let ?s3 = "\<lparr>items = [notebook, pen, ?marker], nextId = 5\<rparr>"
  have 1: "postItems \<lparr>body_name = JStr (js ''Eraser''), body_price = JNum (Fin 1)\<rparr> seed
           = (?s1, Inr \<lparr>status = 201,
                        headers = [(''X-Demo'', [Lit ''items-create'']),
                                   (''Location'', [Lit ''/items/'', Val (Fin 3)])],
                        body = JsonItem ?eraser\<rparr>)"
    using postItems_created [of _ "js ''Eraser''" "Fin 1" seed]
    by (simp add: trim_Eraser js_nonempty seed_eq)
  have 2: "deleteItem (js ''3'') ?s1
           = (?s2, Inr \<lparr>status = 204, headers = [(''X-Demo'', [Lit ''items-delete''])],
                        body = NoBody\<rparr>)"
    by (simp add: deleteItem_def StringToNumber_3 strictEq_def notebook_def pen_def)
  have 3: "postItems \<lparr>body_name = JStr (js ''Marker''), body_price = JStr (js ''2.75'')\<rparr> ?s2
           = (?s3, Inr \<lparr>status = 201,
                        headers = [(''X-Demo'', [Lit ''items-create'']),
                                   (''Location'', [Lit ''/items/'', Val (Fin 4)])],
                        body = JsonItem ?marker\<rparr>)"
    using postItems_created [of _ "js ''Marker''" "Fin (11 / 4)" ?s2]
    by (simp add: trim_Marker js_nonempty StringToNumber_2_75)
  have run: "serve [POST_items \<lparr>body_name = JStr (js ''Eraser''), body_price = JNum (Fin 1)\<rparr>,
          DELETE_item (js ''3''),
          POST_items \<lparr>body_name = JStr (js ''Marker''), body_price = JStr (js ''2.75'')\<rparr>] start
       = (?s3, [1, 2, 3, 4])"
    by (simp add: start_def 1 2 3 issue_def seed_items notebook_def [THEN arg_cong, of item_id]
        pen_def [THEN arg_cong, of item_id])
  have lim: "idLimit \<notin> set [1, 2, 3, 4]"
    by (simp add: idLimit_def)
  from ids_unique_and_increasing [OF run lim] run lim show ?thesis by simp
qed

theorem ids_repeat_at_limit:
  "serve (churn \<lparr>body_name = JStr (js ''Eraser''), body_price = JNum (Fin 1)\<rparr> 3 (idLimit - 3)
          @ [POST_items \<lparr>body_name = JStr (js ''Eraser''), body_price = JNum (Fin 1)\<rparr>]) start
   = (\<lparr>items = [notebook, pen,
                 \<lparr>item_id = idLimit, item_name = js ''Eraser'', item_price = Fin 1\<rparr>],
       nextId = idLimit\<rparr>,
      1 # 2 # [3..<idLimit] @ [idLimit])
   \<and> postItems \<lparr>body_name = JStr (js ''Eraser''), body_price = JNum (Fin 1)\<rparr>
       \<lparr>items = [notebook, pen,
                 \<lparr>item_id = idLimit, item_name = js ''Eraser'', item_price = Fin 1\<rparr>],
        nextId = idLimit\<rparr>
     = (\<lparr>items = [notebook, pen,
                   \<lparr>item_id = idLimit, item_name = js ''Eraser'', item_price = Fin 1\<rparr>,
                   \<lparr>item_id = idLimit, item_name = js ''Eraser'', item_price = Fin 1\<rparr>],
         nextId = idLimit\<rparr>,
        Inr \<lparr>status = 201,
             headers = [(''X-Demo'', [Lit ''items-create'']),
                        (''Location'', [Lit ''/items/'', Val (Fin (of_nat idLimit))])],
             body = JsonItem \<lparr>item_id = idLimit, item_name = js ''Eraser'',
                              item_price = Fin 1\<rparr>\<rparr>)
   \<and> \<not> distinct (map item_id
         [notebook, pen,
          \<lparr>item_id = idLimit, item_name = js ''Eraser'', item_price = Fin 1\<rparr>,
          \<lparr>item_id = idLimit, item_name = js ''Eraser'', item_price = Fin 1\<rparr>])"
proof -
  let ?b = "\<lparr>body_name = JStr (js ''Eraser''), body_price = JNum (Fin 1)\<rparr>"
  let ?x = "\<lparr>item_id = idLimit, item_name = js ''Eraser'', item_price = Fin 1\<rparr>"
  let ?out = "Inr \<lparr>status = 201,
             headers = [(''X-Demo'', [Lit ''items-create'']),
                        (''Location'', [Lit ''/items/'', Val (Fin (of_nat idLimit))])],
             body = JsonItem ?x\<rparr> :: outcome"
  have b: "body_name ?b = JStr (js ''Eraser'')" "trim (js ''Eraser'') \<noteq> []"
    "Number (body_price ?b) = Inr (Fin 1)" "isFinite (Fin 1)" "\<not> lessZero (Fin 1)"
    by (simp_all add: trim_Eraser js_nonempty)
  have lim: "3 + (idLimit - 3) = idLimit"
    by (simp add: idLimit_def)
  then have le: "3 + (idLimit - 3) \<le> idLimit"
    by simp
  have ids: "\<forall>y \<in> set [notebook, pen]. item_id y < 3"
    by (simp add: notebook_def pen_def)
  have st: "start = (\<lparr>items = [notebook, pen], nextId = 3\<rparr>, [1, 2])"
    by (simp add: start_def seed_eq notebook_def [THEN arg_cong, of item_id]
        pen_def [THEN arg_cong, of item_id])
  have c: "serve (churn ?b 3 (idLimit - 3)) start
           = (\<lparr>items = [notebook, pen], nextId = idLimit\<rparr>, 1 # 2 # [3..<idLimit])"
    using serve_churn [OF b ids le, of "[1, 2]"] by (simp only: st lim append.simps)
  have p: "postItems ?b \<lparr>items = its, nextId = idLimit\<rparr>
           = (\<lparr>items = its @ [?x], nextId = idLimit\<rparr>, ?out)" for its
    using postItems_created [OF b, of "\<lparr>items = its, nextId = idLimit\<rparr>"] increment_stuck
    by (simp add: trim_Eraser)
  have 1: "serve (churn ?b 3 (idLimit - 3) @ [POST_items ?b]) start
           = (\<lparr>items = [notebook, pen, ?x], nextId = idLimit\<rparr>,
              1 # 2 # [3..<idLimit] @ [idLimit])"
    using p [of "[notebook, pen]"] by (simp add: serve_append c issue_def)
  have 2: "postItems ?b \<lparr>items = [notebook, pen, ?x], nextId = idLimit\<rparr>
           = (\<lparr>items = [notebook, pen, ?x, ?x], nextId = idLimit\<rparr>, ?out)"
    using p [of "[notebook, pen, ?x]"] by simp
  have 3: "\<not> distinct (map item_id [notebook, pen, ?x, ?x])"
    by simp
  from 1 2 3 show ?thesis by blast
qed

subsection \<open>PartialUpdate\<close>

text \<open>
  C3. A PATCH for an id that no item has is answered with 404 and changes nothing. For an
  existing item the name is looked at first. A name that is present and does not pass the
  rule of Create is answered with 400, and the item stays as it is, whatever the price is.
  Otherwise a name that is present is stored, trimmed, and the price is looked at: a price
  that is absent or passes the rule of Create gives 200 with the item as it is stored, with
  the converted price when it is present; a price that converts to \<^verbatim>\<open>NaN\<close>, an infinity or a
  negative number gives 400, and a price whose conversion throws lets the exception leave
  the handler, in both cases with the price as it was. A field that is absent is kept in
  every case, and so is the id; every other item and the counter are as before. The rule of
  Create is the one that decides whether Create answers 201.

  So a field that is present and valid is not always applied: in
  \<^verbatim>\<open>PATCH /items/1 {"name":"   ","price":5}\<close> on the seed store the price is one that Create
  accepts, the answer is the 400 for the name, and the price of item 1 is still 4.5.
\<close>

theorem partial_update:
  "(findItem s (StringToNumber p) = None \<longrightarrow>
      patchItem p b s =
        (s, Inr \<lparr>status = 404, headers = [],
                 body = JsonError ''not_found''
                          [Lit ''No item with id '', Val (StringToNumber p)]\<rparr>))
   \<and> (findItem s (StringToNumber p) = Some e \<longrightarrow>
        fst (patchItem p b s) = assignExisting (StringToNumber p) (stored b) s
        \<and> (\<exists>k < length (items s). items s ! k = e
              \<and> fst (patchItem p b s) = s\<lparr>items := (items s)[k := stored b e]\<rparr>)
        \<and> findItem (fst (patchItem p b s)) (StringToNumber p) = Some (stored b e)
        \<and> (nameRefused b \<longrightarrow>
             snd (patchItem p b s) =
               Inr \<lparr>status = 400, headers = [],
                    body = JsonError ''bad_request'' [Lit ''name must be a non-empty string'']\<rparr>)
        \<and> (\<not> nameRefused b
             \<and> (body_price b = JUndefined \<or> acceptedPrice (body_price b) \<noteq> None) \<longrightarrow>
             snd (patchItem p b s) =
               Inr \<lparr>status = 200, headers = [(''X-Demo'', [Lit ''items-patch''])],
                    body = JsonItem (stored b e)\<rparr>)
        \<and> (\<not> nameRefused b \<and> body_price b \<noteq> JUndefined \<and> rejectedPrice (body_price b) \<longrightarrow>
             snd (patchItem p b s) =
               Inr \<lparr>status = 400, headers = [],
                    body = JsonError ''bad_request''
                             [Lit ''price must be a non-negative number'']\<rparr>)
        \<and> (\<not> nameRefused b \<and> body_price b \<noteq> JUndefined \<and> Number (body_price b) = Inl t \<longrightarrow>
             snd (patchItem p b s) = Inl t))
   \<and> (nameRefused b \<longleftrightarrow>
        body_name b \<noteq> JUndefined \<and> (\<forall>n. body_name b = JStr n \<longrightarrow> trim n = []))
   \<and> item_id (stored b y) = item_id y
   \<and> (nameRefused b \<longrightarrow> stored b y = y)
   \<and> (body_name b = JUndefined \<longrightarrow> item_name (stored b y) = item_name y)
   \<and> (body_name b = JStr n \<and> trim n \<noteq> [] \<longrightarrow> item_name (stored b y) = trim n)
   \<and> (body_price b = JUndefined \<longrightarrow> item_price (stored b y) = item_price y)
   \<and> (acceptedPrice (body_price b) = None \<longrightarrow> item_price (stored b y) = item_price y)
   \<and> (\<not> nameRefused b \<and> body_price b \<noteq> JUndefined \<and> Number (body_price b) = Inr x
        \<and> isFinite x \<and> \<not> lessZero x \<longrightarrow> item_price (stored b y) = x)
   \<and> ((\<exists>s' r. postItems b s = (s', Inr r) \<and> status r = 201) \<longleftrightarrow>
        acceptedName (body_name b) \<noteq> None \<and> acceptedPrice (body_price b) \<noteq> None)"
proof -
  have 1: "findItem s (StringToNumber p) = None \<longrightarrow>
      patchItem p b s =
        (s, Inr \<lparr>status = 404, headers = [],
                 body = JsonError ''not_found''
                          [Lit ''No item with id '', Val (StringToNumber p)]\<rparr>)"
    using patchItem_not_found [of s p b] by (simp add: notFound_def)
  have 2: "fst (patchItem p b s) = assignExisting (StringToNumber p) (stored b) s
        \<and> (\<exists>k < length (items s). items s ! k = e
              \<and> fst (patchItem p b s) = s\<lparr>items := (items s)[k := stored b e]\<rparr>)
        \<and> findItem (fst (patchItem p b s)) (StringToNumber p) = Some (stored b e)
        \<and> (nameRefused b \<longrightarrow>
             snd (patchItem p b s) =
               Inr \<lparr>status = 400, headers = [],
                    body = JsonError ''bad_request'' [Lit ''name must be a non-empty string'']\<rparr>)
        \<and> (\<not> nameRefused b
             \<and> (body_price b = JUndefined \<or> acceptedPrice (body_price b) \<noteq> None) \<longrightarrow>
             snd (patchItem p b s) =
               Inr \<lparr>status = 200, headers = [(''X-Demo'', [Lit ''items-patch''])],
                    body = JsonItem (stored b e)\<rparr>)
        \<and> (\<not> nameRefused b \<and> body_price b \<noteq> JUndefined \<and> rejectedPrice (body_price b) \<longrightarrow>
             snd (patchItem p b s) =
               Inr \<lparr>status = 400, headers = [],
                    body = JsonError ''bad_request''
                             [Lit ''price must be a non-negative number'']\<rparr>)
        \<and> (\<not> nameRefused b \<and> body_price b \<noteq> JUndefined \<and> Number (body_price b) = Inl t \<longrightarrow>
             snd (patchItem p b s) = Inl t)"
    if e: "findItem s (StringToNumber p) = Some e"
  proof -
    note total = patchItem_total [OF e, of b]
    from total have st: "fst (patchItem p b s) = assignExisting (StringToNumber p) (stored b) s"
      by simp
    from assignExisting_frame [OF e, where f = "stored b", OF stored_id] obtain k where
      k: "k < length (items s)" "items s ! k = e"
        "items (assignExisting (StringToNumber p) (stored b) s) = (items s)[k := stored b e]"
      by blast
    have "assignExisting (StringToNumber p) (stored b) s = s\<lparr>items := (items s)[k := stored b e]\<rparr>"
      using k(3) by (simp add: assignExisting_def)
    with k st have fr: "\<exists>k < length (items s). items s ! k = e
              \<and> fst (patchItem p b s) = s\<lparr>items := (items s)[k := stored b e]\<rparr>"
      by auto
    have fi: "findItem (fst (patchItem p b s)) (StringToNumber p) = Some (stored b e)"
      using e by (simp add: st findItem_assignExisting stored_id)
    have a: "nameRefused b \<longrightarrow>
             snd (patchItem p b s) =
               Inr \<lparr>status = 400, headers = [],
                    body = JsonError ''bad_request'' [Lit ''name must be a non-empty string'']\<rparr>"
      by (simp add: total badRequest_def)
    have b: "\<not> nameRefused b
             \<and> (body_price b = JUndefined \<or> acceptedPrice (body_price b) \<noteq> None) \<longrightarrow>
             snd (patchItem p b s) =
               Inr \<lparr>status = 200, headers = [(''X-Demo'', [Lit ''items-patch''])],
                    body = JsonItem (stored b e)\<rparr>"
      by (auto simp add: total ok_def)
    have c: "\<not> nameRefused b \<and> body_price b \<noteq> JUndefined \<and> rejectedPrice (body_price b) \<longrightarrow>
             snd (patchItem p b s) =
               Inr \<lparr>status = 400, headers = [],
                    body = JsonError ''bad_request''
                             [Lit ''price must be a non-negative number'']\<rparr>"
      by (auto simp add: total badRequest_def rejectedPrice_iff acceptedPrice_def)
    have d: "\<not> nameRefused b \<and> body_price b \<noteq> JUndefined \<and> Number (body_price b) = Inl t \<longrightarrow>
             snd (patchItem p b s) = Inl t"
      by (auto simp add: total acceptedPrice_def)
    from st fr fi a b c d show ?thesis by blast
  qed
  have 3: "nameRefused b \<longleftrightarrow>
        body_name b \<noteq> JUndefined \<and> (\<forall>n. body_name b = JStr n \<longrightarrow> trim n = [])"
    by (simp add: nameRefused_def acceptedName_None)
  have 4: "item_id (stored b y) = item_id y"
    "nameRefused b \<longrightarrow> stored b y = y"
    "body_name b = JUndefined \<longrightarrow> item_name (stored b y) = item_name y"
    "body_name b = JStr n \<and> trim n \<noteq> [] \<longrightarrow> item_name (stored b y) = trim n"
    "body_price b = JUndefined \<longrightarrow> item_price (stored b y) = item_price y"
    "acceptedPrice (body_price b) = None \<longrightarrow> item_price (stored b y) = item_price y"
    "\<not> nameRefused b \<and> body_price b \<noteq> JUndefined \<and> Number (body_price b) = Inr x
        \<and> isFinite x \<and> \<not> lessZero x \<longrightarrow> item_price (stored b y) = x"
    by (simp_all add: stored_def stored_refused nameRefused_def acceptedName_def
        acceptedPrice_def)
  from 1 2 3 4 postItems_accepts [of b s] show ?thesis by blast
qed

theorem partial_update_witness:
  "patchItem (js ''1'') \<lparr>body_name = JUndefined, body_price = JNum (Fin (21 / 4))\<rparr> seed
   = (\<lparr>items = [notebook\<lparr>item_price := Fin (21 / 4)\<rparr>, pen], nextId = 3\<rparr>,
      Inr \<lparr>status = 200, headers = [(''X-Demo'', [Lit ''items-patch''])],
           body = JsonItem (notebook\<lparr>item_price := Fin (21 / 4)\<rparr>)\<rparr>)
   \<and> patchItem (js ''9'') \<lparr>body_name = JUndefined, body_price = JNum (Fin (21 / 4))\<rparr> seed
     = (seed, Inr \<lparr>status = 404, headers = [],
                   body = JsonError ''not_found'' [Lit ''No item with id '', Val (Fin 9)]\<rparr>)
   \<and> patchItem (js ''1'') \<lparr>body_name = JStr (js ''   ''), body_price = JUndefined\<rparr> seed
     = (seed, Inr \<lparr>status = 400, headers = [],
                   body = JsonError ''bad_request''
                            [Lit ''name must be a non-empty string'']\<rparr>)
   \<and> patchItem (js ''1'') \<lparr>body_name = JStr (js ''Pencil''), body_price = JStr (js ''abc'')\<rparr> seed
     = (\<lparr>items = [notebook\<lparr>item_name := js ''Pencil''\<rparr>, pen], nextId = 3\<rparr>,
        Inr \<lparr>status = 400, headers = [],
             body = JsonError ''bad_request''
                      [Lit ''price must be a non-negative number'']\<rparr>)"
proof -
  let ?b = "\<lparr>body_name = JUndefined, body_price = JNum (Fin (21 / 4))\<rparr>"
  let ?c = "\<lparr>body_name = JStr (js ''   ''), body_price = JUndefined\<rparr>"
  let ?d = "\<lparr>body_name = JStr (js ''Pencil''), body_price = JStr (js ''abc'')\<rparr>"
  have f1: "findItem seed (StringToNumber (js ''1'')) = Some notebook"
    by (simp add: StringToNumber_1 findItem_seed_1)
  have f9: "findItem seed (StringToNumber (js ''9'')) = None"
    by (simp add: StringToNumber_9 findItem_seed_9)
  have b: "\<not> nameRefused ?b" "acceptedPrice (body_price ?b) \<noteq> None"
    "stored ?b = (\<lambda>y. y\<lparr>item_price := Fin (21 / 4)\<rparr>)"
    by (simp_all add: nameRefused_def stored_def acceptedName_def acceptedPrice_def fun_eq_iff)
  have c: "nameRefused ?c" "stored ?c = (\<lambda>y. y)"
    by (simp_all add: nameRefused_def stored_def acceptedName_def trim_blanks fun_eq_iff)
  have d: "\<not> nameRefused ?d" "body_price ?d \<noteq> JUndefined" "rejectedPrice (body_price ?d)"
    "stored ?d = (\<lambda>y. y\<lparr>item_name := js ''Pencil''\<rparr>)"
    by (simp_all add: nameRefused_def stored_def acceptedName_def acceptedPrice_def
        rejectedPrice_def StringToNumber_abc trim_Pencil js_nonempty fun_eq_iff)
  note pb = partial_update [where s = seed and p = "js ''1''" and b = ?b and e = notebook]
  note p9 = partial_update [where s = seed and p = "js ''9''" and b = ?b]
  note pc = partial_update [where s = seed and p = "js ''1''" and b = ?c and e = notebook]
  note pd = partial_update [where s = seed and p = "js ''1''" and b = ?d and e = notebook]
  from pb f1 b(1,2) have 1: "fst (patchItem (js ''1'') ?b seed)
        = assignExisting (StringToNumber (js ''1'')) (stored ?b) seed"
    "snd (patchItem (js ''1'') ?b seed)
        = Inr \<lparr>status = 200, headers = [(''X-Demo'', [Lit ''items-patch''])],
               body = JsonItem (stored ?b notebook)\<rparr>"
    by blast+
  from p9 f9 have 2: "patchItem (js ''9'') ?b seed
     = (seed, Inr \<lparr>status = 404, headers = [],
                   body = JsonError ''not_found''
                            [Lit ''No item with id '', Val (StringToNumber (js ''9''))]\<rparr>)"
    by blast
  from pc f1 c(1) have 3: "fst (patchItem (js ''1'') ?c seed)
        = assignExisting (StringToNumber (js ''1'')) (stored ?c) seed"
    "snd (patchItem (js ''1'') ?c seed)
        = Inr \<lparr>status = 400, headers = [],
               body = JsonError ''bad_request'' [Lit ''name must be a non-empty string'']\<rparr>"
    by blast+
  from pd f1 d(1,2,3) have 4: "fst (patchItem (js ''1'') ?d seed)
        = assignExisting (StringToNumber (js ''1'')) (stored ?d) seed"
    "snd (patchItem (js ''1'') ?d seed)
        = Inr \<lparr>status = 400, headers = [],
               body = JsonError ''bad_request''
                        [Lit ''price must be a non-negative number'']\<rparr>"
    by blast+
  have a1: "patchItem (js ''1'') ?b seed
   = (\<lparr>items = [notebook\<lparr>item_price := Fin (21 / 4)\<rparr>, pen], nextId = 3\<rparr>,
      Inr \<lparr>status = 200, headers = [(''X-Demo'', [Lit ''items-patch''])],
           body = JsonItem (notebook\<lparr>item_price := Fin (21 / 4)\<rparr>)\<rparr>)"
    using 1 by (simp add: prod_eq_iff b(3) StringToNumber_1 assign_seed_1)
  have a2: "patchItem (js ''9'') ?b seed
     = (seed, Inr \<lparr>status = 404, headers = [],
                   body = JsonError ''not_found'' [Lit ''No item with id '', Val (Fin 9)]\<rparr>)"
    using 2 by (simp add: StringToNumber_9)
  have a3: "patchItem (js ''1'') ?c seed
     = (seed, Inr \<lparr>status = 400, headers = [],
                   body = JsonError ''bad_request''
                            [Lit ''name must be a non-empty string'']\<rparr>)"
    using 3 by (simp add: prod_eq_iff c(2))
  have a4: "patchItem (js ''1'') ?d seed
     = (\<lparr>items = [notebook\<lparr>item_name := js ''Pencil''\<rparr>, pen], nextId = 3\<rparr>,
        Inr \<lparr>status = 400, headers = [],
             body = JsonError ''bad_request''
                      [Lit ''price must be a non-negative number'']\<rparr>)"
    using 4 by (simp add: prod_eq_iff d(4) StringToNumber_1 assign_seed_1)
  from a1 a2 a3 a4 show ?thesis by blast
qed

theorem partial_update_valid_price_dropped:
  "patchItem (js ''1'') \<lparr>body_name = JStr (js ''   ''), body_price = JNum (Fin 5)\<rparr> seed
   = (seed, Inr \<lparr>status = 400, headers = [],
                 body = JsonError ''bad_request''
                          [Lit ''name must be a non-empty string'']\<rparr>)
   \<and> findItem seed (StringToNumber (js ''1'')) = Some notebook
   \<and> item_price notebook = Fin (9 / 2)
   \<and> body_price \<lparr>body_name = JStr (js ''   ''), body_price = JNum (Fin 5)\<rparr> \<noteq> JUndefined
   \<and> acceptedPrice (JNum (Fin 5)) = Some (Fin 5)
   \<and> postItems \<lparr>body_name = JStr (js ''Pen''), body_price = JNum (Fin 5)\<rparr> seed
     = (\<lparr>items = [notebook, pen, \<lparr>item_id = 3, item_name = js ''Pen'', item_price = Fin 5\<rparr>],
         nextId = 4\<rparr>,
        Inr \<lparr>status = 201,
             headers = [(''X-Demo'', [Lit ''items-create'']),
                        (''Location'', [Lit ''/items/'', Val (Fin 3)])],
             body = JsonItem \<lparr>item_id = 3, item_name = js ''Pen'', item_price = Fin 5\<rparr>\<rparr>)"
proof -
  let ?c = "\<lparr>body_name = JStr (js ''   ''), body_price = JNum (Fin 5)\<rparr>"
  have f: "findItem seed (StringToNumber (js ''1'')) = Some notebook"
    by (simp add: StringToNumber_1 findItem_seed_1)
  have 1: "patchItem (js ''1'') ?c seed
           = (seed, Inr \<lparr>status = 400, headers = [],
                 body = JsonError ''bad_request''
                          [Lit ''name must be a non-empty string'']\<rparr>)"
    using patchItem_name_invalid [OF f, of ?c]
    by (simp add: trim_blanks badRequest_def)
  have 2: "item_price notebook = Fin (9 / 2)"
    by (simp add: notebook_def)
  have 3: "acceptedPrice (JNum (Fin 5)) = Some (Fin 5)"
    by (simp add: acceptedPrice_def)
  have 4: "postItems \<lparr>body_name = JStr (js ''Pen''), body_price = JNum (Fin 5)\<rparr> seed
     = (\<lparr>items = [notebook, pen, \<lparr>item_id = 3, item_name = js ''Pen'', item_price = Fin 5\<rparr>],
         nextId = 4\<rparr>,
        Inr \<lparr>status = 201,
             headers = [(''X-Demo'', [Lit ''items-create'']),
                        (''Location'', [Lit ''/items/'', Val (Fin 3)])],
             body = JsonItem \<lparr>item_id = 3, item_name = js ''Pen'', item_price = Fin 5\<rparr>\<rparr>)"
    using postItems_created [of _ "js ''Pen''" "Fin 5" seed]
    by (simp add: trim_Pen_plain js_nonempty seed_eq)
  from 1 f 2 3 4 show ?thesis by simp
qed

text \<open>
  C4. The claim answers a PATCH with a valid name and an invalid price with 400, the name
  being changed all the same. The request
  \<^verbatim>\<open>PATCH /items/1 {"name":"Pencil","price":{"toString":1}}\<close> on the seed store renames
  item 1 and then gets no 400: \<^verbatim>\<open>Number(price)\<close> throws. (For a price that converts to
  \<^verbatim>\<open>NaN\<close>, an infinity or a negative number, \<open>patch_not_atomic\<close> gives the 400 and the
  changed name.)
\<close>

theorem patch_price_object_throws:
  "patchItem (js ''1'') \<lparr>body_name = JStr (js ''Pencil''),
                        body_price = JObj [(js ''toString'', JNum (Fin 1))]\<rparr> seed
   = (\<lparr>items = [notebook\<lparr>item_name := js ''Pencil''\<rparr>, pen], nextId = 3\<rparr>, Inl TypeError)"
proof -
  let ?b = "\<lparr>body_name = JStr (js ''Pencil''),
             body_price = JObj [(js ''toString'', JNum (Fin 1))]\<rparr>"
  have f: "findItem seed (StringToNumber (js ''1'')) = Some notebook"
    by (simp add: StringToNumber_1 findItem_seed_1)
  have n: "body_name ?b = JUndefined \<or> (\<exists>n. body_name ?b = JStr n \<and> trim n \<noteq> [])"
    by (simp add: trim_Pencil js_nonempty)
  have u: "body_price ?b \<noteq> JUndefined"
    by simp
  have t: "Number (body_price ?b) = Inl TypeError"
    by (simp add: Number_toString_object)
  have a: "assignExisting (StringToNumber (js ''1'')) (namePatched (body_name ?b)) seed
           = \<lparr>items = [notebook\<lparr>item_name := js ''Pencil''\<rparr>, pen], nextId = 3\<rparr>"
    by (simp add: StringToNumber_1 assignExisting_def seed_eq strictEq_def namePatched_def
        trim_Pencil notebook_def)
  from patchItem_price_throws [OF f n u t] a show ?thesis by simp
qed

theorem patch_price_object_throws_witness:
  "snd (patchItem (js ''1'') \<lparr>body_name = JStr (js ''Pencil''),
                             body_price = JObj [(js ''toString'', JNum (Fin 1))]\<rparr> seed)
   = Inl TypeError
   \<and> map item_name (items (fst (patchItem (js ''1'')
        \<lparr>body_name = JStr (js ''Pencil''),
          body_price = JObj [(js ''toString'', JNum (Fin 1))]\<rparr> seed)))
     = [js ''Pencil'', js ''Pen'']"
  using patch_price_object_throws by (simp add: notebook_def pen_def)

subsection \<open>Root\<close>

text \<open>
  C5. The handler of \<^verbatim>\<open>GET /\<close> asks for the client's acceptable types in the order plain
  text, JSON, XML, HTML and answers 200 with the endpoint index in the first format that is
  acceptable; it answers 406 exactly when none of the four is. A client that sends
  \<^verbatim>\<open>Accept: application/json\<close> gets the 200 JSON index, a client that sends only
  \<^verbatim>\<open>Accept: application/x-foo\<close> gets 406.
\<close>

theorem root_negotiation:
  "(accepts ''text/plain'' \<longrightarrow>
      getRoot accepts =
        \<lparr>status = 200, headers = [contentType ''text/plain''], body = Text plainIndex\<rparr>)
   \<and> (\<not> accepts ''text/plain'' \<and> accepts ''application/json'' \<longrightarrow>
      getRoot accepts =
        \<lparr>status = 200, headers = [], body = JsonIndex ''Express REST Demo'' endpoints\<rparr>)
   \<and> (\<not> accepts ''text/plain'' \<and> \<not> accepts ''application/json''
        \<and> accepts ''application/xml'' \<longrightarrow>
      getRoot accepts =
        \<lparr>status = 200, headers = [contentType ''application/xml''], body = Text xmlIndex\<rparr>)
   \<and> (\<not> accepts ''text/plain'' \<and> \<not> accepts ''application/json''
        \<and> \<not> accepts ''application/xml'' \<and> accepts ''text/html'' \<longrightarrow>
      getRoot accepts =
        \<lparr>status = 200, headers = [contentType ''text/html''], body = Text htmlIndex\<rparr>)
   \<and> (status (getRoot accepts) = 406 \<longleftrightarrow>
        \<not> (\<exists>t \<in> set [''text/plain'', ''application/json'', ''application/xml'', ''text/html''].
              accepts t))
   \<and> getRoot (reqAccepts (acceptOnly ''application'' ''json'')) =
        \<lparr>status = 200, headers = [], body = JsonIndex ''Express REST Demo'' endpoints\<rparr>
   \<and> status (getRoot (reqAccepts (acceptOnly ''application'' ''x-foo''))) = 406"
  by (simp add: getRoot_def reqAccepts_def acceptOnly_def mediaTypePriority_def specify_def
      toLowerCase_def)

theorem root_negotiation_witness:
  "reqAccepts (acceptOnly ''text'' ''*'') ''text/plain''
   \<and> getRoot (reqAccepts (acceptOnly ''text'' ''*'')) =
        \<lparr>status = 200, headers = [contentType ''text/plain''], body = Text plainIndex\<rparr>
   \<and> \<not> reqAccepts (acceptOnly ''text'' ''html'') ''text/plain''
   \<and> \<not> reqAccepts (acceptOnly ''text'' ''html'') ''application/json''
   \<and> \<not> reqAccepts (acceptOnly ''text'' ''html'') ''application/xml''
   \<and> reqAccepts (acceptOnly ''text'' ''html'') ''text/html''
   \<and> getRoot (reqAccepts (acceptOnly ''text'' ''html'')) =
        \<lparr>status = 200, headers = [contentType ''text/html''], body = Text htmlIndex\<rparr>
   \<and> getRoot (reqAccepts None) =
        \<lparr>status = 200, headers = [contentType ''text/plain''], body = Text plainIndex\<rparr>"
proof -
  have plain: "reqAccepts (acceptOnly ''text'' ''*'') ''text/plain''"
    by (simp add: reqAccepts_def acceptOnly_def mediaTypePriority_def specify_def
      toLowerCase_def)
  have html: "\<not> reqAccepts (acceptOnly ''text'' ''html'') ''text/plain''"
    "\<not> reqAccepts (acceptOnly ''text'' ''html'') ''application/json''"
    "\<not> reqAccepts (acceptOnly ''text'' ''html'') ''application/xml''"
    "reqAccepts (acceptOnly ''text'' ''html'') ''text/html''"
    by (simp_all add: reqAccepts_def acceptOnly_def mediaTypePriority_def specify_def
      toLowerCase_def)
  have none: "reqAccepts None ''text/plain''"
    by (simp add: reqAccepts_def)
  show ?thesis
    using plain html none
      root_negotiation [of "reqAccepts (acceptOnly ''text'' ''*'')"]
      root_negotiation [of "reqAccepts (acceptOnly ''text'' ''html'')"]
      root_negotiation [of "reqAccepts None"]
    by blast
qed

subsection \<open>Replace\<close>

text \<open>
  C6. The claim answers every violation of the validation in a Replace of an existing item
  with 400. The request \<^verbatim>\<open>PUT /items/1 {"name":"Pencil","price":{"toString":1}}\<close> on the
  seed store gets no 400: \<^verbatim>\<open>Number(price)\<close> throws a \<^verbatim>\<open>TypeError\<close>, which leaves the handler;
  the store is unchanged. (The rest of the claim is \<open>putItem_not_found\<close>,
  \<open>putItem_name_invalid\<close>, \<open>putItem_price_invalid\<close> and \<open>putItem_replaced\<close>.)
\<close>

theorem replace_price_object_throws:
  "putItem (js ''1'') \<lparr>body_name = JStr (js ''Pencil''),
                      body_price = JObj [(js ''toString'', JNum (Fin 1))]\<rparr> seed
   = (seed, Inl TypeError)"
  using putItem_price_throws [of seed "js ''1''" notebook _ "js ''Pencil''" TypeError]
  by (simp add: StringToNumber_1 findItem_seed_1 trim_Pencil js_nonempty Number_toString_object)

theorem replace_price_object_throws_witness:
  "snd (putItem (js ''1'') \<lparr>body_name = JStr (js ''Pencil''),
                           body_price = JObj [(js ''toString'', JNum (Fin 1))]\<rparr> seed)
   = Inl TypeError"
  using replace_price_object_throws by simp

subsection \<open>Delete\<close>

text \<open>
  C7. Delete of an id that an item has answers 204 with no body and removes that item.
  When the ids in the store are distinct (as \<open>reachable_ids\<close> gives them), no item has the
  id after that. In every store in which no item has the id, Get and Delete of it answer
  404 with the same body, \<^verbatim>\<open>not_found\<close> and \<^verbatim>\<open>No item with id <id>\<close>, and Delete leaves the
  collection as it is (Get has no access to it).
\<close>

theorem delete_then_not_found:
  assumes "findItem s (StringToNumber p) = Some x"
    and "s' = s\<lparr>items := remove1 x (items s)\<rparr>"
  shows "deleteItem p s =
           (s', Inr \<lparr>status = 204, headers = [(''X-Demo'', [Lit ''items-delete''])],
                     body = NoBody\<rparr>)
         \<and> (distinct (map item_id (items s)) \<longrightarrow> findItem s' (StringToNumber p) = None)
         \<and> (\<forall>t. findItem t (StringToNumber p) = None \<longrightarrow>
               getItem p t =
                 \<lparr>status = 404, headers = [],
                  body = JsonError ''not_found''
                           [Lit ''No item with id '', Val (StringToNumber p)]\<rparr>
               \<and> deleteItem p t =
                   (t, Inr \<lparr>status = 404, headers = [],
                            body = JsonError ''not_found''
                                     [Lit ''No item with id '', Val (StringToNumber p)]\<rparr>))"
proof -
  from assms have "deleteItem p s =
      (s', Inr \<lparr>status = 204, headers = [(''X-Demo'', [Lit ''items-delete''])], body = NoBody\<rparr>)"
    by (simp add: deleteItem_removed)
  moreover have "findItem s' (StringToNumber p) = None" if "distinct (map item_id (items s))"
    using that assms by (simp add: findItem_remove1_None)
  moreover have "getItem p t = notFound (StringToNumber p)
      \<and> deleteItem p t = (t, Inr (notFound (StringToNumber p)))"
    if "findItem t (StringToNumber p) = None" for t
    using that by (simp add: getItem_not_found deleteItem_not_found)
  ultimately show ?thesis by (simp add: notFound_def)
qed

theorem delete_then_not_found_witness:
  "deleteItem (js ''2'') seed
   = (\<lparr>items = [notebook], nextId = 3\<rparr>,
      Inr \<lparr>status = 204, headers = [(''X-Demo'', [Lit ''items-delete''])], body = NoBody\<rparr>)
   \<and> distinct (map item_id (items seed))
   \<and> findItem \<lparr>items = [notebook], nextId = 3\<rparr> (StringToNumber (js ''2'')) = None
   \<and> getItem (js ''2'') \<lparr>items = [notebook], nextId = 3\<rparr>
     = \<lparr>status = 404, headers = [],
        body = JsonError ''not_found'' [Lit ''No item with id '', Val (Fin 2)]\<rparr>
   \<and> deleteItem (js ''2'') \<lparr>items = [notebook], nextId = 3\<rparr>
     = (\<lparr>items = [notebook], nextId = 3\<rparr>,
        Inr \<lparr>status = 404, headers = [],
             body = JsonError ''not_found'' [Lit ''No item with id '', Val (Fin 2)]\<rparr>)"
proof -
  have f: "findItem seed (StringToNumber (js ''2'')) = Some pen"
    by (simp add: StringToNumber_2 findItem_seed_2)
  have r: "\<lparr>items = [notebook], nextId = 3\<rparr> = seed\<lparr>items := remove1 pen (items seed)\<rparr>"
    by (simp add: seed_eq notebook_def pen_def)
  have d: "distinct (map item_id (items seed))"
    by (simp add: seed_def)
  note t = delete_then_not_found [OF f r]
  from t have 1: "deleteItem (js ''2'') seed
      = (\<lparr>items = [notebook], nextId = 3\<rparr>,
         Inr \<lparr>status = 204, headers = [(''X-Demo'', [Lit ''items-delete''])], body = NoBody\<rparr>)"
    by blast
  from t d have g: "findItem \<lparr>items = [notebook], nextId = 3\<rparr> (StringToNumber (js ''2'')) = None"
    by blast
  from t g have "getItem (js ''2'') \<lparr>items = [notebook], nextId = 3\<rparr>
      = \<lparr>status = 404, headers = [],
         body = JsonError ''not_found''
                  [Lit ''No item with id '', Val (StringToNumber (js ''2''))]\<rparr>
    \<and> deleteItem (js ''2'') \<lparr>items = [notebook], nextId = 3\<rparr>
      = (\<lparr>items = [notebook], nextId = 3\<rparr>,
         Inr \<lparr>status = 404, headers = [],
              body = JsonError ''not_found''
                       [Lit ''No item with id '', Val (StringToNumber (js ''2''))]\<rparr>)"
    by blast
  with 1 d g show ?thesis
    by (simp add: StringToNumber_2)
qed

subsection \<open>Create, then Get\<close>



subsection \<open>What Replace and PartialUpdate leave alone\<close>

text \<open>
  C9. A Replace or PartialUpdate that answers 200 leaves the counter, the length of the
  collection and the ids in their order as they were; it changes one element of the
  collection, the item found for the id, to the item it returns, which has the same id, and
  leaves every other element as it was.
\<close>

theorem update_frame:
  assumes "putItem p b s = (s', Inr r) \<or> patchItem p b s = (s', Inr r)" and "status r = 200"
  shows "nextId s' = nextId s
         \<and> length (items s') = length (items s)
         \<and> map item_id (items s') = map item_id (items s)
         \<and> (\<exists>k e e'. k < length (items s) \<and> findItem s (StringToNumber p) = Some e
               \<and> items s ! k = e \<and> item_id e' = item_id e
               \<and> items s' = (items s)[k := e'] \<and> body r = JsonItem e'
               \<and> (\<forall>j < length (items s). j \<noteq> k \<longrightarrow> items s' ! j = items s ! j))"
proof -
  from assms obtain e f where e: "findItem s (StringToNumber p) = Some e"
    and s': "s' = assignExisting (StringToNumber p) f s"
    and f: "\<And>y. item_id (f y) = item_id y" and r: "body r = JsonItem (f e)"
  proof -
    from assms(1) show thesis
    proof
    assume "putItem p b s = (s', Inr r)"
    from putItem_200 [OF this assms(2)] obtain e n x where
      "findItem s (StringToNumber p) = Some e"
      "s' = assignExisting (StringToNumber p) (\<lambda>y. y\<lparr>item_name := n, item_price := x\<rparr>) s"
      "r = ok ''items-put'' (e\<lparr>item_name := n, item_price := x\<rparr>)" by blast
    then show ?thesis by (intro that [of e "\<lambda>y. y\<lparr>item_name := n, item_price := x\<rparr>"]) (simp_all add: ok_def)
  next
    assume "patchItem p b s = (s', Inr r)"
    from patchItem_200 [OF this assms(2)] obtain e where
      "findItem s (StringToNumber p) = Some e"
      "s' = assignExisting (StringToNumber p) (patched b) s"
      "r = ok ''items-patch'' (patched b e)" by blast
    then show ?thesis by (intro that [of e "patched b"]) (simp_all add: ok_def patched_def)
  qed
  qed
  from assignExisting_frame [OF e f] s' obtain k where
    fr: "nextId s' = nextId s" "length (items s') = length (items s)"
      "map item_id (items s') = map item_id (items s)"
    and k: "k < length (items s)" "items s ! k = e" "items s' = (items s)[k := f e]"
    by auto
  from k have "\<forall>j < length (items s). j \<noteq> k \<longrightarrow> items s' ! j = items s ! j" by simp
  with fr k e f r show ?thesis by blast
qed

theorem update_frame_witness:
  "putItem (js ''1'') \<lparr>body_name = JStr (js ''Pencil''), body_price = JNum (Fin 6)\<rparr> seed
   = (\<lparr>items = [notebook\<lparr>item_name := js ''Pencil'', item_price := Fin 6\<rparr>, pen], nextId = 3\<rparr>,
      Inr \<lparr>status = 200, headers = [(''X-Demo'', [Lit ''items-put''])],
           body = JsonItem (notebook\<lparr>item_name := js ''Pencil'', item_price := Fin 6\<rparr>)\<rparr>)
   \<and> nextId \<lparr>items = [notebook\<lparr>item_name := js ''Pencil'', item_price := Fin 6\<rparr>, pen],
             nextId = 3\<rparr> = nextId seed
   \<and> map item_id [notebook\<lparr>item_name := js ''Pencil'', item_price := Fin 6\<rparr>, pen]
     = map item_id (items seed)"
proof -
  let ?b = "\<lparr>body_name = JStr (js ''Pencil''), body_price = JNum (Fin 6)\<rparr>"
  let ?e = "notebook\<lparr>item_name := js ''Pencil'', item_price := Fin 6\<rparr>"
  let ?s' = "\<lparr>items = [?e, pen], nextId = 3\<rparr>"
  let ?r = "\<lparr>status = 200, headers = [(''X-Demo'', [Lit ''items-put''])], body = JsonItem ?e\<rparr>"
  have put: "putItem (js ''1'') ?b seed = (?s', Inr ?r)"
    using putItem_replaced [of seed "js ''1''" notebook ?b "js ''Pencil''" "Fin 6"]
    by (simp add: StringToNumber_1 findItem_seed_1 trim_Pencil js_nonempty assign_seed_1 ok_def)
  then have "putItem (js ''1'') ?b seed = (?s', Inr ?r)
             \<or> patchItem (js ''1'') ?b seed = (?s', Inr ?r)" ..
  from update_frame [OF this] put show ?thesis by simp
qed

subsection \<open>Prices that are not numbers\<close>

text \<open>
  C10. \<^verbatim>\<open>null\<close>, the empty string, \<^verbatim>\<open>true\<close>, \<^verbatim>\<open>false\<close>, a string of white space and the string
  \<^verbatim>\<open>2.75\<close> convert to 0, 0, 1, 0, 0 and 2.75. Create, Replace and PartialUpdate accept a price
  exactly when it converts to a finite number that is not negative, and store the number
  it converts to; with a valid name (and an existing item) they answer 400 exactly when the
  price converts to \<^verbatim>\<open>NaN\<close>, an infinity or a negative number.
\<close>

theorem price_coercion:
  "Number JNull = Inr (Fin 0)
   \<and> Number (JStr []) = Inr (Fin 0)
   \<and> Number (JBool True) = Inr (Fin 1)
   \<and> Number (JBool False) = Inr (Fin 0)
   \<and> (list_all isWhiteSpace w \<longrightarrow> Number (JStr w) = Inr (Fin 0))
   \<and> Number (JStr (js ''2.75'')) = Inr (Fin (11 / 4))
   \<and> (acceptedPrice v = Some x \<longleftrightarrow> (\<exists>q. Number v = Inr (Fin q) \<and> 0 \<le> q \<and> x = Fin q))
   \<and> (rejectedPrice v \<longleftrightarrow>
        Number v = Inr NaN \<or> Number v = Inr PosInf \<or> Number v = Inr NegInf
        \<or> (\<exists>q. Number v = Inr (Fin q) \<and> q < 0))
   \<and> (trim n \<noteq> [] \<and> acceptedPrice v = Some x \<longrightarrow>
        postItems \<lparr>body_name = JStr n, body_price = v\<rparr> s =
          (s\<lparr>items := items s @ [\<lparr>item_id = nextId s, item_name = trim n, item_price = x\<rparr>],
             nextId := increment (nextId s)\<rparr>,
           Inr \<lparr>status = 201,
                headers = [(''X-Demo'', [Lit ''items-create'']),
                           (''Location'', [Lit ''/items/'', Val (Fin (of_nat (nextId s)))])],
                body = JsonItem \<lparr>item_id = nextId s, item_name = trim n, item_price = x\<rparr>\<rparr>))
   \<and> (trim n \<noteq> [] \<and> findItem s (StringToNumber p) = Some e \<and> acceptedPrice v = Some x \<longrightarrow>
        putItem p \<lparr>body_name = JStr n, body_price = v\<rparr> s =
          (assignExisting (StringToNumber p) (\<lambda>y. y\<lparr>item_name := trim n, item_price := x\<rparr>) s,
           Inr \<lparr>status = 200, headers = [(''X-Demo'', [Lit ''items-put''])],
                body = JsonItem (e\<lparr>item_name := trim n, item_price := x\<rparr>)\<rparr>))
   \<and> (findItem s (StringToNumber p) = Some e \<and> v \<noteq> JUndefined \<and> acceptedPrice v = Some x \<longrightarrow>
        patchItem p \<lparr>body_name = JUndefined, body_price = v\<rparr> s =
          (assignExisting (StringToNumber p) (\<lambda>y. y\<lparr>item_price := x\<rparr>) s,
           Inr \<lparr>status = 200, headers = [(''X-Demo'', [Lit ''items-patch''])],
                body = JsonItem (e\<lparr>item_price := x\<rparr>)\<rparr>))
   \<and> (trim n \<noteq> [] \<longrightarrow>
        ((\<exists>r. snd (postItems \<lparr>body_name = JStr n, body_price = v\<rparr> s) = Inr r \<and> status r = 400)
         \<longleftrightarrow> rejectedPrice v))
   \<and> (trim n \<noteq> [] \<and> findItem s (StringToNumber p) = Some e \<longrightarrow>
        ((\<exists>r. snd (putItem p \<lparr>body_name = JStr n, body_price = v\<rparr> s) = Inr r \<and> status r = 400)
         \<longleftrightarrow> rejectedPrice v))
   \<and> (findItem s (StringToNumber p) = Some e \<and> v \<noteq> JUndefined \<longrightarrow>
        ((\<exists>r. snd (patchItem p \<lparr>body_name = JUndefined, body_price = v\<rparr> s) = Inr r
               \<and> status r = 400)
         \<longleftrightarrow> rejectedPrice v))"
proof -
  have a: "Number JNull = Inr (Fin 0)" "Number (JStr []) = Inr (Fin 0)"
    "Number (JBool True) = Inr (Fin 1)" "Number (JBool False) = Inr (Fin 0)"
    by (simp_all add: StringToNumber_def trim_def)
  have b: "list_all isWhiteSpace w \<longrightarrow> Number (JStr w) = Inr (Fin 0)"
    by (simp add: StringToNumber_blank)
  have c: "Number (JStr (js ''2.75'')) = Inr (Fin (11 / 4))"
    by (simp add: StringToNumber_2_75)
  have d: "rejectedPrice v \<longleftrightarrow>
        Number v = Inr NaN \<or> Number v = Inr PosInf \<or> Number v = Inr NegInf
        \<or> (\<exists>q. Number v = Inr (Fin q) \<and> q < 0)"
    by (auto simp add: rejectedPrice_def split: sum.splits jsnum.splits)
  note e = acceptedPrice_Fin [of v x]
  note f = postItems_accepted [of n v x s] putItem_accepted [of n s p e v x]
    patchItem_accepted [of s p e v x]
  note g = postItems_400_iff [of n v s] putItem_400_iff [of n s p e v]
    patchItem_400_iff [of s p e v]
  show ?thesis
    apply (intro conjI impI)
    using a b c d e f g by blast+
qed

theorem price_coercion_witness:
  "postItems \<lparr>body_name = JStr (js ''Pen''), body_price = JNull\<rparr> seed
   = (\<lparr>items = [notebook, pen, \<lparr>item_id = 3, item_name = js ''Pen'', item_price = Fin 0\<rparr>],
       nextId = 4\<rparr>,
      Inr \<lparr>status = 201,
           headers = [(''X-Demo'', [Lit ''items-create'']),
                      (''Location'', [Lit ''/items/'', Val (Fin 3)])],
           body = JsonItem \<lparr>item_id = 3, item_name = js ''Pen'', item_price = Fin 0\<rparr>\<rparr>)
   \<and> putItem (js ''1'') \<lparr>body_name = JStr (js ''Pen''), body_price = JNull\<rparr> seed
     = (\<lparr>items = [notebook\<lparr>item_name := js ''Pen'', item_price := Fin 0\<rparr>, pen], nextId = 3\<rparr>,
        Inr \<lparr>status = 200, headers = [(''X-Demo'', [Lit ''items-put''])],
             body = JsonItem (notebook\<lparr>item_name := js ''Pen'', item_price := Fin 0\<rparr>)\<rparr>)
   \<and> patchItem (js ''1'') \<lparr>body_name = JUndefined, body_price = JNull\<rparr> seed
     = (\<lparr>items = [notebook\<lparr>item_price := Fin 0\<rparr>, pen], nextId = 3\<rparr>,
        Inr \<lparr>status = 200, headers = [(''X-Demo'', [Lit ''items-patch''])],
             body = JsonItem (notebook\<lparr>item_price := Fin 0\<rparr>)\<rparr>)
   \<and> Number (JStr (js ''   '')) = Inr (Fin 0)
   \<and> rejectedPrice (JStr (js ''abc''))
   \<and> (\<exists>r. snd (postItems \<lparr>body_name = JStr (js ''Pen''), body_price = JStr (js ''abc'')\<rparr> seed)
            = Inr r \<and> status r = 400)"
proof -
  have n: "trim (js ''Pen'') \<noteq> []"
    by (simp add: trim_Pen_plain js_nonempty)
  have f: "findItem seed (StringToNumber (js ''1'')) = Some notebook"
    by (simp add: StringToNumber_1 findItem_seed_1)
  have a: "acceptedPrice JNull = Some (Fin 0)" "JNull \<noteq> JUndefined"
    by (simp_all add: acceptedPrice_def)
  have w: "list_all isWhiteSpace (js ''   '')"
    by (simp add: js_simps isWhiteSpace_def)
  have r: "rejectedPrice (JStr (js ''abc''))"
    by (simp add: rejectedPrice_def StringToNumber_abc)
  note pc = price_coercion [of "js ''   ''" JNull "Fin 0" "js ''Pen''" seed "js ''1''" notebook]
  note pc' = price_coercion [of "[]" "JStr (js ''abc'')" "Fin 0" "js ''Pen''" seed "js ''1''"
      notebook]
  from pc n a have 1:
    "postItems \<lparr>body_name = JStr (js ''Pen''), body_price = JNull\<rparr> seed =
       (seed\<lparr>items := items seed @ [\<lparr>item_id = nextId seed, item_name = trim (js ''Pen''),
                                        item_price = Fin 0\<rparr>],
             nextId := increment (nextId seed)\<rparr>,
        Inr \<lparr>status = 201,
             headers = [(''X-Demo'', [Lit ''items-create'']),
                        (''Location'', [Lit ''/items/'', Val (Fin (of_nat (nextId seed)))])],
             body = JsonItem \<lparr>item_id = nextId seed, item_name = trim (js ''Pen''),
                              item_price = Fin 0\<rparr>\<rparr>)"
    by blast
  from pc n f a have 2:
    "putItem (js ''1'') \<lparr>body_name = JStr (js ''Pen''), body_price = JNull\<rparr> seed =
       (assignExisting (StringToNumber (js ''1''))
          (\<lambda>y. y\<lparr>item_name := trim (js ''Pen''), item_price := Fin 0\<rparr>) seed,
        Inr \<lparr>status = 200, headers = [(''X-Demo'', [Lit ''items-put''])],
             body = JsonItem (notebook\<lparr>item_name := trim (js ''Pen''), item_price := Fin 0\<rparr>)\<rparr>)"
    by blast
  from pc f a have 3:
    "patchItem (js ''1'') \<lparr>body_name = JUndefined, body_price = JNull\<rparr> seed =
       (assignExisting (StringToNumber (js ''1'')) (\<lambda>y. y\<lparr>item_price := Fin 0\<rparr>) seed,
        Inr \<lparr>status = 200, headers = [(''X-Demo'', [Lit ''items-patch''])],
             body = JsonItem (notebook\<lparr>item_price := Fin 0\<rparr>)\<rparr>)"
    by blast
  from pc w have 4: "Number (JStr (js ''   '')) = Inr (Fin 0)"
    by blast
  from pc' n r have 5:
    "\<exists>r. snd (postItems \<lparr>body_name = JStr (js ''Pen''), body_price = JStr (js ''abc'')\<rparr> seed)
           = Inr r \<and> status r = 400"
    by blast
  have a1: "postItems \<lparr>body_name = JStr (js ''Pen''), body_price = JNull\<rparr> seed
   = (\<lparr>items = [notebook, pen, \<lparr>item_id = 3, item_name = js ''Pen'', item_price = Fin 0\<rparr>],
       nextId = 4\<rparr>,
      Inr \<lparr>status = 201,
           headers = [(''X-Demo'', [Lit ''items-create'']),
                      (''Location'', [Lit ''/items/'', Val (Fin 3)])],
           body = JsonItem \<lparr>item_id = 3, item_name = js ''Pen'', item_price = Fin 0\<rparr>\<rparr>)"
    unfolding 1 by (simp add: trim_Pen_plain seed_eq)
  have a2: "putItem (js ''1'') \<lparr>body_name = JStr (js ''Pen''), body_price = JNull\<rparr> seed
     = (\<lparr>items = [notebook\<lparr>item_name := js ''Pen'', item_price := Fin 0\<rparr>, pen], nextId = 3\<rparr>,
        Inr \<lparr>status = 200, headers = [(''X-Demo'', [Lit ''items-put''])],
             body = JsonItem (notebook\<lparr>item_name := js ''Pen'', item_price := Fin 0\<rparr>)\<rparr>)"
    unfolding 2 by (simp add: trim_Pen_plain StringToNumber_1 assign_seed_1)
  have a3: "patchItem (js ''1'') \<lparr>body_name = JUndefined, body_price = JNull\<rparr> seed
     = (\<lparr>items = [notebook\<lparr>item_price := Fin 0\<rparr>, pen], nextId = 3\<rparr>,
        Inr \<lparr>status = 200, headers = [(''X-Demo'', [Lit ''items-patch''])],
             body = JsonItem (notebook\<lparr>item_price := Fin 0\<rparr>)\<rparr>)"
    unfolding 3 by (simp add: StringToNumber_1 assign_seed_1)
  from a1 a2 a3 4 5 r show ?thesis by blast
qed

end
